theory Spec2Isabelle
  imports Main "HOL-Library.Word" "HOL-Library.Sublist"
begin

section \<open>Go runtime: strings\<close>

text \<open>
  A Go string is a sequence of bytes, modelled as \<^typ>\<open>string\<close>. Hostnames, names and
  namespaces of the Gateway API are DNS names, so \<open>strings.ToLower\<close> is modelled by its
  action on ASCII: the letters \<open>A\<close> to \<open>Z\<close> are mapped to \<open>a\<close> to \<open>z\<close>, every other
  byte is kept.
\<close>

datatype panic = SliceOutOfRange | NilDereference

definition lowerChar :: "char \<Rightarrow> char" where
  "lowerChar c =
     (let n = (of_char c :: nat)
      in if 65 \<le> n \<and> n \<le> 90 then char_of (n + 32) else c)"

definition ToLower :: "string \<Rightarrow> string" where
  "ToLower s = map lowerChar s"

text \<open>\<open>strings.HasPrefix(s, p)\<close> is \<open>len(s) >= len(p) && s[:len(p)] == p\<close>.\<close>

definition HasPrefix :: "string \<Rightarrow> string \<Rightarrow> bool" where
  "HasPrefix s p = (length s \<ge> length p \<and> take (length p) s = p)"

text \<open>\<open>strings.HasSuffix(s, x)\<close> is \<open>len(s) >= len(x) && s[len(s)-len(x):] == x\<close>.\<close>

definition HasSuffix :: "string \<Rightarrow> string \<Rightarrow> bool" where
  "HasSuffix s x = (length s \<ge> length x \<and> drop (length s - length x) s = x)"

text \<open>The slice expression \<open>s[1:]\<close> panics on the empty string.\<close>

definition sliceFrom1 :: "string \<Rightarrow> panic + string" where
  "sliceFrom1 s = (if length s < 1 then Inl SliceOutOfRange else Inr (drop 1 s))"

section \<open>Hostname matcher\<close>

definition matchesWildcard :: "string \<Rightarrow> string \<Rightarrow> panic + bool" where
  "matchesWildcard wildcardHost specificHost =
     (case sliceFrom1 wildcardHost of
        Inl p \<Rightarrow> Inl p
      | Inr wsuffix \<Rightarrow>
          if \<not> HasSuffix specificHost wsuffix then Inr False
          else (case sliceFrom1 wsuffix of
                  Inl p \<Rightarrow> Inl p
                | Inr apex \<Rightarrow> if specificHost = apex then Inr False else Inr True))"

definition hostnameMatches :: "string \<Rightarrow> string \<Rightarrow> panic + bool" where
  "hostnameMatches listenerHost0 routeHost0 =
     (let listenerHost = ToLower listenerHost0;
          routeHost = ToLower routeHost0
      in if listenerHost = routeHost then Inr True
         else
           let listenerIsWildcard = HasPrefix listenerHost ''*.'';
               routeIsWildcard = HasPrefix routeHost ''*.''
           in if listenerIsWildcard \<and> routeIsWildcard then
                (case sliceFrom1 listenerHost of
                   Inl p \<Rightarrow> Inl p
                 | Inr listenerSuffix \<Rightarrow>
                     (case sliceFrom1 routeHost of
                        Inl p \<Rightarrow> Inl p
                      | Inr routeSuffix \<Rightarrow> Inr (listenerSuffix = routeSuffix)))
              else if listenerIsWildcard then matchesWildcard listenerHost routeHost
              else if routeIsWildcard then matchesWildcard routeHost listenerHost
              else Inr False)"

text \<open>
  The relation the matcher is compared with, on hostnames that are already folded to
  lower case: equal names, or one side is a wildcard \<open>*.X\<close>, the other is not, and
  the other ends with \<open>.X\<close>.
\<close>

definition hostMatchSpec :: "string \<Rightarrow> string \<Rightarrow> bool" where
  "hostMatchSpec L R \<longleftrightarrow>
     L = R
     \<or> (prefix ''*.'' L \<and> \<not> prefix ''*.'' R \<and> suffix (drop 1 L) R)
     \<or> (\<not> prefix ''*.'' L \<and> prefix ''*.'' R \<and> suffix (drop 1 R) L)"

text \<open>
  The loop of \<open>HostnamesIntersect\<close> over the route hostnames: it returns at the first
  hostname that matches.
\<close>

fun anyHostnameMatches :: "string \<Rightarrow> string list \<Rightarrow> panic + bool" where
  "anyHostnameMatches listenerHostname [] = Inr False"
| "anyHostnameMatches listenerHostname (routeHost # rest) =
     (case hostnameMatches listenerHostname routeHost of
        Inl p \<Rightarrow> Inl p
      | Inr True \<Rightarrow> Inr True
      | Inr False \<Rightarrow> anyHostnameMatches listenerHostname rest)"

definition HostnamesIntersect :: "string option \<Rightarrow> string list \<Rightarrow> panic + bool" where
  "HostnamesIntersect listenerHostname routeHostnames =
     (case listenerHostname of
        None \<Rightarrow> Inr True
      | Some h \<Rightarrow>
          if h = [] then Inr True
          else if length routeHostnames = 0 then Inr True
          else anyHostnameMatches h routeHostnames)"

section \<open>Gateway API objects\<close>

text \<open>
  The objects of the Gateway API, with the fields the controller reads. A pointer field
  is an \<open>option\<close>. The label selector of a listener is a type parameter: it is only
  handed to the conversion function of the Kubernetes library.
\<close>

type_synonym labels = "string \<rightharpoonup> string"

record RouteGroupKind =
  rgk_Group :: "string option"
  rgk_Kind :: string

record 'sel RouteNamespaces =
  rn_From :: "string option"
  rn_Selector :: "'sel option"

record 'sel AllowedRoutes =
  ar_Namespaces :: "'sel RouteNamespaces option"
  ar_Kinds :: "RouteGroupKind list"

record 'sel Listener =
  l_Name :: string
  l_Hostname :: "string option"
  l_Protocol :: string
  l_AllowedRoutes :: "'sel AllowedRoutes option"

record 'sel Gateway =
  gw_Name :: string
  gw_Namespace :: string
  gw_GatewayClassName :: string
  gw_Listeners :: "'sel Listener list"

record ParentReference =
  pr_Kind :: "string option"
  pr_Namespace :: "string option"
  pr_Name :: string
  pr_SectionName :: "string option"

text \<open>
  An HTTPRoute or a GRPCRoute, with the fields binding reads: the two Go types agree on
  them, and the callers pass the kind of the route beside it.
\<close>

record Route =
  rt_Name :: string
  rt_Namespace :: string
  rt_ParentRefs :: "ParentReference list"
  rt_Hostnames :: "string list"

datatype error = Panic panic | Error string

text \<open>\<open>errors.Wrap(err, msg)\<close> prefixes the message; a panic is not an error value.\<close>

fun Wrap :: "error \<Rightarrow> string \<Rightarrow> error" where
  "Wrap (Error e) msg = Error (msg @ '': '' @ e)"
| "Wrap (Panic p) msg = Panic p"

text \<open>A ReferenceGrant, by its \<open>spec.from\<close> and \<open>spec.to\<close> lists.\<close>

record ReferenceGrantFrom =
  rgf_Group :: string
  rgf_Kind :: string
  rgf_Namespace :: string

record ReferenceGrantTo =
  rgt_Group :: string
  rgt_Kind :: string
  rgt_Name :: "string option"

record ReferenceGrant =
  rg_From :: "ReferenceGrantFrom list"
  rg_To :: "ReferenceGrantTo list"

text \<open>
  What the controller reads through its Kubernetes client. \<open>Get\<close> of a Namespace or a
  Gateway gives \<open>None\<close> when the call returns an error; a \<open>List\<close> gives its items or an
  error; ReferenceGrants are listed in one namespace. \<open>LabelSelectorAsSelector\<close> is the
  conversion of the Kubernetes library, kept with the client for the namespace gate: it
  gives the predicate on label sets that \<open>Matches\<close> computes, or an error.
\<close>

record 'sel Client =
  LabelSelectorAsSelector :: "'sel \<Rightarrow> error + (labels \<Rightarrow> bool)"
  GetNamespace :: "string \<Rightarrow> labels option"
  GetGateway :: "string \<times> string \<Rightarrow> 'sel Gateway option"
  ListHTTPRoutes :: "error + Route list"
  ListGRPCRoutes :: "error + Route list"
  ListReferenceGrants :: "string \<Rightarrow> error + ReferenceGrant list"

text \<open>The constants of the Gateway API library that the code compares with.\<close>

definition GroupName :: string where "GroupName = ''gateway.networking.k8s.io''"

definition NamespacesFromAll :: string where "NamespacesFromAll = ''All''"
definition NamespacesFromSelector :: string where "NamespacesFromSelector = ''Selector''"
definition NamespacesFromSame :: string where "NamespacesFromSame = ''Same''"
definition NamespacesFromNone :: string where "NamespacesFromNone = ''None''"

definition HTTPProtocolType :: string where "HTTPProtocolType = ''HTTP''"
definition HTTPSProtocolType :: string where "HTTPSProtocolType = ''HTTPS''"
definition TLSProtocolType :: string where "TLSProtocolType = ''TLS''"
definition TCPProtocolType :: string where "TCPProtocolType = ''TCP''"
definition UDPProtocolType :: string where "UDPProtocolType = ''UDP''"

definition RouteReasonAccepted :: string where "RouteReasonAccepted = ''Accepted''"
definition RouteReasonNotAllowedByListeners :: string where
  "RouteReasonNotAllowedByListeners = ''NotAllowedByListeners''"
definition RouteReasonNoMatchingListenerHostname :: string where
  "RouteReasonNoMatchingListenerHostname = ''NoMatchingListenerHostname''"
definition RouteReasonNoMatchingParent :: string where
  "RouteReasonNoMatchingParent = ''NoMatchingParent''"

section \<open>Kind gate\<close>

definition KindHTTPRoute :: string where "KindHTTPRoute = ''HTTPRoute''"
definition KindGRPCRoute :: string where "KindGRPCRoute = ''GRPCRoute''"
definition KindTLSRoute :: string where "KindTLSRoute = ''TLSRoute''"
definition KindTCPRoute :: string where "KindTCPRoute = ''TCPRoute''"
definition KindUDPRoute :: string where "KindUDPRoute = ''UDPRoute''"

definition kindMatches :: "RouteGroupKind \<Rightarrow> string \<Rightarrow> bool" where
  "kindMatches allowed routeKind =
     (if rgk_Kind allowed \<noteq> routeKind then False
      else
        let allowedGroup =
              (case rgk_Group allowed of
                 None \<Rightarrow> GroupName
               | Some g \<Rightarrow> if g \<noteq> [] then g else GroupName)
        in allowedGroup = GroupName)"

definition getDefaultKindsForProtocol :: "string \<Rightarrow> RouteGroupKind list" where
  "getDefaultKindsForProtocol protocol =
     (let group = GroupName in
      if protocol = HTTPProtocolType \<or> protocol = HTTPSProtocolType then
        [\<lparr>rgk_Group = Some group, rgk_Kind = KindHTTPRoute\<rparr>,
         \<lparr>rgk_Group = Some group, rgk_Kind = KindGRPCRoute\<rparr>]
      else if protocol = TLSProtocolType then
        [\<lparr>rgk_Group = Some group, rgk_Kind = KindTLSRoute\<rparr>]
      else if protocol = TCPProtocolType then
        [\<lparr>rgk_Group = Some group, rgk_Kind = KindTCPRoute\<rparr>]
      else if protocol = UDPProtocolType then
        [\<lparr>rgk_Group = Some group, rgk_Kind = KindUDPRoute\<rparr>]
      else
        [\<lparr>rgk_Group = Some group, rgk_Kind = KindHTTPRoute\<rparr>,
         \<lparr>rgk_Group = Some group, rgk_Kind = KindGRPCRoute\<rparr>])"

definition getAllowedKinds :: "'sel AllowedRoutes option \<Rightarrow> string \<Rightarrow> RouteGroupKind list" where
  "getAllowedKinds allowedRoutes protocol =
     (case allowedRoutes of
        None \<Rightarrow> getDefaultKindsForProtocol protocol
      | Some ar \<Rightarrow>
          if length (ar_Kinds ar) > 0 then ar_Kinds ar
          else getDefaultKindsForProtocol protocol)"

fun anyKindMatches :: "RouteGroupKind list \<Rightarrow> string \<Rightarrow> bool" where
  "anyKindMatches [] routeKind = False"
| "anyKindMatches (allowed # rest) routeKind =
     (if kindMatches allowed routeKind then True else anyKindMatches rest routeKind)"

definition IsRouteKindAllowed :: "'sel AllowedRoutes option \<Rightarrow> string \<Rightarrow> string \<Rightarrow> bool" where
  "IsRouteKindAllowed allowedRoutes protocol routeKind =
     anyKindMatches (getAllowedKinds allowedRoutes protocol) routeKind"

section \<open>Namespace gate\<close>

definition getNamespaceFrom :: "'sel AllowedRoutes option \<Rightarrow> string" where
  "getNamespaceFrom allowedRoutes =
     (case allowedRoutes of
        None \<Rightarrow> NamespacesFromSame
      | Some ar \<Rightarrow>
          (case ar_Namespaces ar of
             None \<Rightarrow> NamespacesFromSame
           | Some ns \<Rightarrow>
               (case rn_From ns of
                  None \<Rightarrow> NamespacesFromSame
                | Some f \<Rightarrow> f)))"

text \<open>
  \<open>namespaceMatchesSelector\<close> reads \<open>allowedRoutes.Namespaces.Selector\<close> without a nil
  check of its own; the selector is converted before the namespace is fetched.
\<close>

definition namespaceMatchesSelector ::
  "'sel Client \<Rightarrow> 'sel AllowedRoutes option \<Rightarrow> string \<Rightarrow> error + bool" where
  "namespaceMatchesSelector cli allowedRoutes routeNamespace =
     (case allowedRoutes of
        None \<Rightarrow> Inl (Panic NilDereference)
      | Some ar \<Rightarrow>
          (case ar_Namespaces ar of
             None \<Rightarrow> Inl (Panic NilDereference)
           | Some ns \<Rightarrow>
               (case rn_Selector ns of
                  None \<Rightarrow> Inr False
                | Some sel \<Rightarrow>
                    (case LabelSelectorAsSelector cli sel of
                       Inl err \<Rightarrow> Inl (Wrap err ''invalid label selector'')
                     | Inr selector \<Rightarrow>
                         (case GetNamespace cli routeNamespace of
                            None \<Rightarrow> Inr False
                          | Some nsLabels \<Rightarrow> Inr (selector nsLabels))))))"

definition IsNamespaceAllowed ::
  "'sel Client \<Rightarrow> 'sel AllowedRoutes option \<Rightarrow> string \<Rightarrow> string \<Rightarrow> error + bool" where
  "IsNamespaceAllowed cli allowedRoutes gatewayNamespace routeNamespace =
     (let from = getNamespaceFrom allowedRoutes in
      if from = NamespacesFromSame then Inr (gatewayNamespace = routeNamespace)
      else if from = NamespacesFromAll then Inr True
      else if from = NamespacesFromSelector then
        namespaceMatchesSelector cli allowedRoutes routeNamespace
      else if from = NamespacesFromNone then Inr False
      else Inr (gatewayNamespace = routeNamespace))"

section \<open>Binding evaluator\<close>

record RouteInfo =
  ri_Name :: string
  ri_Namespace :: string
  ri_Hostnames :: "string list"
  ri_Kind :: string
  ri_SectionName :: "string option"

record BindingResult =
  br_Accepted :: bool
  br_Reason :: string
  br_Message :: string
  br_MatchedListeners :: "string list"

definition defaultRejectionMessage :: string where
  "defaultRejectionMessage = ''Route not accepted''"

definition getReasonMessage :: "string \<Rightarrow> string" where
  "getReasonMessage reason =
     (if reason = RouteReasonNoMatchingListenerHostname then
        ''No listener hostname matches route hostnames''
      else if reason = RouteReasonNotAllowedByListeners then
        ''Route not allowed by listener allowedRoutes policy''
      else if reason = RouteReasonNoMatchingParent then
        ''No matching listener found''
      else defaultRejectionMessage)"

definition listenerAcceptsRoute ::
  "'sel Client \<Rightarrow> 'sel Listener \<Rightarrow> string \<Rightarrow> RouteInfo \<Rightarrow> error + string" where
  "listenerAcceptsRoute cli listener gatewayNamespace route =
     (case HostnamesIntersect (l_Hostname listener) (ri_Hostnames route) of
        Inl p \<Rightarrow> Inl (Panic p)
      | Inr False \<Rightarrow> Inr RouteReasonNoMatchingListenerHostname
      | Inr True \<Rightarrow>
          (case IsNamespaceAllowed cli (l_AllowedRoutes listener) gatewayNamespace
                  (ri_Namespace route) of
             Inl err \<Rightarrow> Inl err
           | Inr allowed \<Rightarrow>
               if \<not> allowed then Inr RouteReasonNotAllowedByListeners
               else if \<not> IsRouteKindAllowed (l_AllowedRoutes listener) (l_Protocol listener)
                          (ri_Kind route)
               then Inr RouteReasonNotAllowedByListeners
               else Inr RouteReasonAccepted))"

text \<open>
  The loop of \<open>findMatchingListeners\<close>, with its two variables \<open>matchedListeners\<close> and
  \<open>lastRejectionReason\<close>; an error of a listener ends the walk.
\<close>

fun walkListeners ::
  "'sel Client \<Rightarrow> string \<Rightarrow> RouteInfo \<Rightarrow> 'sel Listener list \<Rightarrow> string list \<Rightarrow> string
     \<Rightarrow> error + (string list \<times> string)" where
  "walkListeners cli gatewayNamespace route [] matchedListeners lastRejectionReason =
     Inr (matchedListeners, lastRejectionReason)"
| "walkListeners cli gatewayNamespace route (listener # rest) matchedListeners
       lastRejectionReason =
     (if ri_SectionName route \<noteq> None \<and> ri_SectionName route \<noteq> Some (l_Name listener) then
        walkListeners cli gatewayNamespace route rest matchedListeners lastRejectionReason
      else
        (case listenerAcceptsRoute cli listener gatewayNamespace route of
           Inl err \<Rightarrow> Inl err
         | Inr reason \<Rightarrow>
             if reason = RouteReasonAccepted then
               walkListeners cli gatewayNamespace route rest
                 (matchedListeners @ [l_Name listener]) lastRejectionReason
             else
               walkListeners cli gatewayNamespace route rest matchedListeners reason))"

definition findMatchingListeners ::
  "'sel Client \<Rightarrow> 'sel Gateway \<Rightarrow> RouteInfo \<Rightarrow> error + (string list \<times> string)" where
  "findMatchingListeners cli gateway route =
     (if length (gw_Listeners gateway) = 0 then Inr ([], RouteReasonNoMatchingParent)
      else
        (case walkListeners cli (gw_Namespace gateway) route (gw_Listeners gateway) [] [] of
           Inl err \<Rightarrow> Inl err
         | Inr (matchedListeners, lastRejectionReason) \<Rightarrow>
             if length matchedListeners = 0 then
               (if ri_SectionName route \<noteq> None then Inr ([], RouteReasonNoMatchingParent)
                else if lastRejectionReason = [] then Inr ([], RouteReasonNoMatchingParent)
                else Inr ([], lastRejectionReason))
             else Inr (matchedListeners, [])))"

definition ValidateBinding ::
  "'sel Client \<Rightarrow> 'sel Gateway \<Rightarrow> RouteInfo \<Rightarrow> error + BindingResult" where
  "ValidateBinding cli gateway route =
     (case findMatchingListeners cli gateway route of
        Inl err \<Rightarrow> Inl err
      | Inr (matchedListeners, rejectionReason) \<Rightarrow>
          if length matchedListeners = 0 then
            Inr \<lparr>br_Accepted = False, br_Reason = rejectionReason,
                 br_Message = getReasonMessage rejectionReason, br_MatchedListeners = []\<rparr>
          else
            Inr \<lparr>br_Accepted = True, br_Reason = RouteReasonAccepted,
                 br_Message = ''Route accepted'', br_MatchedListeners = matchedListeners\<rparr>)"

text \<open>
  Vocabulary for stating what the binding evaluator returns. The listeners the walk
  evaluates are those the section-name filter does not skip; a listener passes when the
  three gates (hostname, namespace, kind) all say yes.
\<close>

definition notSkipped :: "RouteInfo \<Rightarrow> 'sel Listener list \<Rightarrow> 'sel Listener list" where
  "notSkipped route ls =
     filter (\<lambda>l. ri_SectionName route = None \<or> ri_SectionName route = Some (l_Name l)) ls"



section \<open>Grant validator\<close>

record Reference =
  ref_Group :: string
  ref_Kind :: string
  ref_Namespace :: string
  ref_Name :: string

definition matchesFrom :: "ReferenceGrantFrom \<Rightarrow> Reference \<Rightarrow> bool" where
  "matchesFrom grantFrom fromRef =
     (if rgf_Group grantFrom \<noteq> ref_Group fromRef then False
      else if rgf_Kind grantFrom \<noteq> ref_Kind fromRef then False
      else if rgf_Namespace grantFrom \<noteq> ref_Namespace fromRef then False
      else True)"

definition matchesTo :: "ReferenceGrantTo \<Rightarrow> Reference \<Rightarrow> bool" where
  "matchesTo grantTo toRef =
     (let grantGroup = (if rgt_Group grantTo = ''core'' then [] else rgt_Group grantTo)
      in if grantGroup \<noteq> ref_Group toRef then False
         else if rgt_Kind grantTo \<noteq> ref_Kind toRef then False
         else if rgt_Name grantTo \<noteq> None \<and> rgt_Name grantTo \<noteq> Some (ref_Name toRef)
         then False
         else True)"

fun anyMatchesFrom :: "ReferenceGrantFrom list \<Rightarrow> Reference \<Rightarrow> bool" where
  "anyMatchesFrom [] fromRef = False"
| "anyMatchesFrom (grantFrom # rest) fromRef =
     (if matchesFrom grantFrom fromRef then True else anyMatchesFrom rest fromRef)"

fun anyMatchesTo :: "ReferenceGrantTo list \<Rightarrow> Reference \<Rightarrow> bool" where
  "anyMatchesTo [] toRef = False"
| "anyMatchesTo (grantTo # rest) toRef =
     (if matchesTo grantTo toRef then True else anyMatchesTo rest toRef)"

definition grantAllowsReference :: "ReferenceGrant \<Rightarrow> Reference \<Rightarrow> Reference \<Rightarrow> bool" where
  "grantAllowsReference grant fromRef toRef =
     (let fromAllowed = anyMatchesFrom (rg_From grant) fromRef
      in if \<not> fromAllowed then False else anyMatchesTo (rg_To grant) toRef)"

fun anyGrantAllows :: "ReferenceGrant list \<Rightarrow> Reference \<Rightarrow> Reference \<Rightarrow> bool" where
  "anyGrantAllows [] fromRef toRef = False"
| "anyGrantAllows (grant # rest) fromRef toRef =
     (if grantAllowsReference grant fromRef toRef then True
      else anyGrantAllows rest fromRef toRef)"

definition IsReferenceAllowed :: "'sel Client \<Rightarrow> Reference \<Rightarrow> Reference \<Rightarrow> error + bool" where
  "IsReferenceAllowed cli fromRef toRef =
     (if ref_Namespace fromRef = ref_Namespace toRef then Inr True
      else
        (case ListReferenceGrants cli (ref_Namespace toRef) of
           Inl err \<Rightarrow> Inl (Wrap err ''failed to list ReferenceGrants'')
         | Inr grants \<Rightarrow> Inr (anyGrantAllows grants fromRef toRef)))"

section \<open>Backend weights\<close>

text \<open>
  \<open>int32\<close> and \<open>uint32\<close> are \<^typ>\<open>32 word\<close>; \<open><s\<close> is the comparison of \<open>int32\<close> values,
  and the conversion \<open>uint32(w)\<close> keeps the bits. An index of type \<open>int\<close> is an
  \<^typ>\<open>int\<close>: it is bounded by the length of a slice.
\<close>

type_synonym int32 = "32 word"
type_synonym uint32 = "32 word"

definition DefaultBackendWeight :: int32 where "DefaultBackendWeight = 1"
definition MinBackendWeight :: int32 where "MinBackendWeight = 0"
definition MaxBackendWeight :: int32 where "MaxBackendWeight = 1000000"

text \<open>
  The loop of \<open>SelectHighestWeightIndex\<close> from index \<open>i\<close> on, with its variables
  \<open>selectedIdx\<close> and \<open>highestWeight\<close>; \<open>GetWeight\<close> is the method of the interface.
\<close>

fun selectLoop :: "('a \<Rightarrow> int32 option) \<Rightarrow> 'a list \<Rightarrow> int \<Rightarrow> int \<Rightarrow> int32 \<Rightarrow> int" where
  "selectLoop GetWeight [] i selectedIdx highestWeight = selectedIdx"
| "selectLoop GetWeight (r # rest) i selectedIdx highestWeight =
     (let weight = (case GetWeight r of None \<Rightarrow> DefaultBackendWeight | Some w \<Rightarrow> w)
      in if weight = 0 then selectLoop GetWeight rest (i + 1) selectedIdx highestWeight
         else if selectedIdx = - 1 \<or> highestWeight <s weight
         then selectLoop GetWeight rest (i + 1) i weight
         else selectLoop GetWeight rest (i + 1) selectedIdx highestWeight)"

definition SelectHighestWeightIndex :: "('a \<Rightarrow> int32 option) \<Rightarrow> 'a list \<Rightarrow> int" where
  "SelectHighestWeightIndex GetWeight refs =
     (if length refs = 0 then - 1 else selectLoop GetWeight refs 0 (- 1) 0)"

text \<open>The weight the selector reads for a reference: \<open>DefaultBackendWeight\<close> when unset.\<close>

definition weightOf :: "('a \<Rightarrow> int32 option) \<Rightarrow> 'a \<Rightarrow> int32" where
  "weightOf GetWeight r = (case GetWeight r of None \<Rightarrow> DefaultBackendWeight | Some w \<Rightarrow> w)"

text \<open>
  The invariant of the loop after the references \<open>pre\<close>: nothing is selected and all
  weights so far are zero, or the selected index holds the first greatest weight among
  the non-zero ones.
\<close>

definition selInv :: "('a \<Rightarrow> int32 option) \<Rightarrow> 'a list \<Rightarrow> int \<Rightarrow> int32 \<Rightarrow> bool" where
  "selInv gw pre sel hw \<longleftrightarrow>
     (sel = - 1 \<and> (\<forall>j < length pre. weightOf gw (pre ! j) = 0))
     \<or> (0 \<le> sel \<and> nat sel < length pre \<and> hw = weightOf gw (pre ! nat sel) \<and> hw \<noteq> 0
        \<and> (\<forall>j < length pre. weightOf gw (pre ! j) \<noteq> 0 \<longrightarrow>
               sint (weightOf gw (pre ! j)) \<le> sint hw)
        \<and> (\<forall>j < nat sel. weightOf gw (pre ! j) \<noteq> 0 \<longrightarrow>
               sint (weightOf gw (pre ! j)) < sint hw))"

section \<open>Route-to-proxy builder: backends\<close>

record BackendRef =
  bref_Kind :: "string option"
  bref_Namespace :: "string option"
  bref_Name :: string
  bref_Port :: "int32 option"
  bref_Weight :: "int32 option"

record Backend =
  be_Address :: string
  be_Weight :: uint32
  be_Protocol :: string

text \<open>The verb \<open>%d\<close> of \<open>fmt.Sprintf\<close>: a decimal numeral, with a sign when negative.\<close>

definition digitChar :: "nat \<Rightarrow> char" where
  "digitChar d = char_of (48 + d)"

function natToDecimal :: "nat \<Rightarrow> string" where
  "natToDecimal n =
     (if n < 10 then [digitChar n] else natToDecimal (n div 10) @ [digitChar (n mod 10)])"
  by pat_completeness auto
termination
  by (relation "measure id") auto

definition formatInt :: "int \<Rightarrow> string" where
  "formatInt k = (if k < 0 then CHR ''-'' # natToDecimal (nat (- k)) else natToDecimal (nat k))"

definition buildBackend :: "string \<Rightarrow> string \<Rightarrow> BackendRef \<Rightarrow> panic + Backend option" where
  "buildBackend clusterDomain namespace ref =
     (if bref_Kind ref \<noteq> None \<and> bref_Kind ref \<noteq> Some ''Service'' then Inr None
      else
        let backendNamespace =
              (case bref_Namespace ref of None \<Rightarrow> namespace | Some n \<Rightarrow> n)
        in (case bref_Port ref of
              None \<Rightarrow> Inl NilDereference
            | Some port \<Rightarrow>
                let address = bref_Name ref @ ''.'' @ backendNamespace @ ''.svc.''
                                @ clusterDomain @ '':'' @ formatInt (sint port);
                    result = \<lparr>be_Address = address, be_Weight = 1,
                              be_Protocol = ''BACKEND_PROTOCOL_HTTP''\<rparr>
                in Inr (Some (case bref_Weight ref of
                                None \<Rightarrow> result
                              | Some w \<Rightarrow>
                                  if 0 <s w then result\<lparr>be_Weight := w\<rparr> else result))))"

text \<open>
  The loop over \<open>rule.BackendRefs\<close> in \<open>buildHTTPRouteRule\<close> and \<open>buildGRPCRouteRule\<close>:
  every backend that \<open>buildBackend\<close> returns is appended to the rule's backends.
\<close>

fun ruleBackends :: "string \<Rightarrow> string \<Rightarrow> BackendRef list \<Rightarrow> Backend list \<Rightarrow> panic + Backend list" where
  "ruleBackends clusterDomain namespace [] backends = Inr backends"
| "ruleBackends clusterDomain namespace (backendRef # rest) backends =
     (case buildBackend clusterDomain namespace backendRef of
        Inl p \<Rightarrow> Inl p
      | Inr None \<Rightarrow> ruleBackends clusterDomain namespace rest backends
      | Inr (Some backend) \<Rightarrow>
          ruleBackends clusterDomain namespace rest (backends @ [backend]))"

section \<open>Route syncer: relevant routes\<close>

definition kindGateway :: string where "kindGateway = ''Gateway''"

text \<open>
  \<open>routeBindingInfo\<close> holds the map from parent-ref index to BindingResult; the syncer
  keeps one per route key \<open>namespace/name\<close>.
\<close>

type_synonym routeBindingInfo = "nat \<rightharpoonup> BindingResult"

definition routeKey :: "Route \<Rightarrow> string" where
  "routeKey route = rt_Namespace route @ ''/'' @ rt_Name route"

text \<open>
  The loop over \<open>route.Spec.ParentRefs\<close> from index \<open>refIdx\<close> on, with the variables
  \<open>bindingInfo.bindingResults\<close> and \<open>hasAcceptedBinding\<close>. The loops of
  \<open>getRelevantHTTPRoutes\<close> and \<open>getRelevantGRPCRoutes\<close> differ in the kind of the
  RouteInfo only, which is the parameter \<open>kind\<close>.
\<close>

fun parentRefsLoop ::
  "'sel Client \<Rightarrow> string \<Rightarrow> string \<Rightarrow> Route \<Rightarrow> ParentReference list \<Rightarrow> nat
     \<Rightarrow> routeBindingInfo \<Rightarrow> bool \<Rightarrow> routeBindingInfo \<times> bool" where
  "parentRefsLoop cli className kind route [] refIdx bindingResults hasAcceptedBinding =
     (bindingResults, hasAcceptedBinding)"
| "parentRefsLoop cli className kind route (ref # rest) refIdx bindingResults
       hasAcceptedBinding =
     (if pr_Kind ref \<noteq> None \<and> pr_Kind ref \<noteq> Some kindGateway then
        parentRefsLoop cli className kind route rest (refIdx + 1) bindingResults
          hasAcceptedBinding
      else
        let namespace = (case pr_Namespace ref of None \<Rightarrow> rt_Namespace route | Some n \<Rightarrow> n)
        in (case GetGateway cli (pr_Name ref, namespace) of
              None \<Rightarrow>
                parentRefsLoop cli className kind route rest (refIdx + 1) bindingResults
                  hasAcceptedBinding
            | Some gateway \<Rightarrow>
                if gw_GatewayClassName gateway \<noteq> className then
                  parentRefsLoop cli className kind route rest (refIdx + 1) bindingResults
                    hasAcceptedBinding
                else
                  let routeInfo =
                        \<lparr>ri_Name = rt_Name route, ri_Namespace = rt_Namespace route,
                         ri_Hostnames = rt_Hostnames route, ri_Kind = kind,
                         ri_SectionName = pr_SectionName ref\<rparr>
                  in (case ValidateBinding cli gateway routeInfo of
                        Inl bindErr \<Rightarrow>
                          parentRefsLoop cli className kind route rest (refIdx + 1)
                            bindingResults hasAcceptedBinding
                      | Inr result \<Rightarrow>
                          parentRefsLoop cli className kind route rest (refIdx + 1)
                            (bindingResults(refIdx \<mapsto> result))
                            (if br_Accepted result then True else hasAcceptedBinding))))"

text \<open>The loop over \<open>routeList.Items\<close>, with \<open>relevantRoutes\<close> and \<open>bindings\<close>.\<close>

fun routesLoop ::
  "'sel Client \<Rightarrow> string \<Rightarrow> string \<Rightarrow> Route list \<Rightarrow> Route list
     \<Rightarrow> (string \<rightharpoonup> routeBindingInfo) \<Rightarrow> Route list \<times> (string \<rightharpoonup> routeBindingInfo)" where
  "routesLoop cli className kind [] relevantRoutes bindings = (relevantRoutes, bindings)"
| "routesLoop cli className kind (route # rest) relevantRoutes bindings =
     (let (bindingResults, hasAcceptedBinding) =
            parentRefsLoop cli className kind route (rt_ParentRefs route) 0 Map.empty False;
          bindings' = bindings(routeKey route \<mapsto> bindingResults)
      in if hasAcceptedBinding
         then routesLoop cli className kind rest (relevantRoutes @ [route]) bindings'
         else routesLoop cli className kind rest relevantRoutes bindings')"

definition getRelevantHTTPRoutes ::
  "'sel Client \<Rightarrow> string \<Rightarrow> error + (Route list \<times> (string \<rightharpoonup> routeBindingInfo))" where
  "getRelevantHTTPRoutes cli className =
     (case ListHTTPRoutes cli of
        Inl err \<Rightarrow> Inl (Wrap err ''failed to list httproutes'')
      | Inr items \<Rightarrow> Inr (routesLoop cli className KindHTTPRoute items [] Map.empty))"

definition getRelevantGRPCRoutes ::
  "'sel Client \<Rightarrow> string \<Rightarrow> error + (Route list \<times> (string \<rightharpoonup> routeBindingInfo))" where
  "getRelevantGRPCRoutes cli className =
     (case ListGRPCRoutes cli of
        Inl err \<Rightarrow> Inl (Wrap err ''failed to list grpcroutes'')
      | Inr items \<Rightarrow> Inr (routesLoop cli className KindGRPCRoute items [] Map.empty))"

text \<open>
  Vocabulary for the snapshot: the BindingResult of parent-ref \<open>i\<close> of a route, when that
  parent-ref qualifies (its kind is unset or Gateway, its Gateway can be fetched and is
  of the configured class) and the binding evaluator returns a result.
\<close>

definition parentBinding ::
  "'sel Client \<Rightarrow> string \<Rightarrow> string \<Rightarrow> Route \<Rightarrow> nat \<Rightarrow> BindingResult option" where
  "parentBinding cli className kind route i =
     (if i < length (rt_ParentRefs route) then
        let ref = rt_ParentRefs route ! i in
        if pr_Kind ref = None \<or> pr_Kind ref = Some kindGateway then
          (case GetGateway cli
                  (pr_Name ref,
                   case pr_Namespace ref of None \<Rightarrow> rt_Namespace route | Some n \<Rightarrow> n) of
             None \<Rightarrow> None
           | Some gateway \<Rightarrow>
               if gw_GatewayClassName gateway = className then
                 (case ValidateBinding cli gateway
                         \<lparr>ri_Name = rt_Name route, ri_Namespace = rt_Namespace route,
                          ri_Hostnames = rt_Hostnames route, ri_Kind = kind,
                          ri_SectionName = pr_SectionName ref\<rparr> of
                    Inl bindErr \<Rightarrow> None
                  | Inr result \<Rightarrow> Some result)
               else None)
        else None
      else None)"


section \<open>Route syncer: SyncAllRoutes\<close>

text \<open>
  The proxy side. A connection handle is a number; the routing client made from a
  connection is identified with it. The wire routes are built by the builder from the
  relevant routes; their type is a parameter, since the syncer only passes them on.
\<close>

type_synonym conn = nat

record ResolvedPingoraConfig =
  rc_Address :: string
  rc_ConfigName :: string

record 'wire UpdateRoutesRequest =
  req_HttpRoutes :: "'wire list"
  req_GrpcRoutes :: "'wire list"
  req_Version :: "64 word"

record UpdateRoutesResponse =
  rsp_Success :: bool
  rsp_Error :: string
  rsp_HttpRouteCount :: "32 word"
  rsp_GrpcRouteCount :: "32 word"
  rsp_AppliedVersion :: "64 word"

text \<open>
  What \<open>SyncAllRoutes\<close> calls outside the syncer: the Kubernetes client, the config
  resolver (resolving the PingoraConfig and dialling), the builder and the
  \<open>UpdateRoutes\<close> call of the proxy, which answers a request with a transport error or
  a reply.
\<close>

record ('sel, 'wire) SyncEnv =
  env_Client :: "'sel Client"
  ResolveFromGatewayClassName :: "string \<Rightarrow> error + ResolvedPingoraConfig"
  CreateGRPCConnection :: "ResolvedPingoraConfig \<Rightarrow> error + conn"
  BuildHTTPRoute :: "Route \<Rightarrow> 'wire"
  BuildGRPCRoute :: "Route \<Rightarrow> 'wire"
  UpdateRoutes :: "conn \<Rightarrow> 'wire UpdateRoutesRequest \<Rightarrow> error + UpdateRoutesResponse"

datatype metric =
  SyncDuration string
| SyncError string
| GRPCCall string string
| SyncedRoutes string nat

text \<open>
  The syncer: its configuration, its connection state and its version counter. The
  effects it has on the outside are kept as logs: the connections it closed, the
  requests it sent with the client it used, and the metrics it recorded.
\<close>

record 'wire PingoraRouteSyncer =
  s_GatewayClassName :: string
  s_conn :: "conn option"
  s_grpcClient :: "conn option"
  s_configName :: string
  s_version :: "64 word"
  s_closed :: "conn list"
  s_sent :: "(conn \<times> 'wire UpdateRoutesRequest) list"
  s_metrics :: "metric list"

record SyncResult =
  sr_HTTPRoutes :: "Route list"
  sr_GRPCRoutes :: "Route list"
  sr_HTTPRouteBindings :: "string \<rightharpoonup> routeBindingInfo"
  sr_GRPCRouteBindings :: "string \<rightharpoonup> routeBindingInfo"

text \<open>
  The three values \<open>SyncAllRoutes\<close> returns: \<open>ctrl.Result\<close> by its \<open>RequeueAfter\<close> (a
  \<open>time.Duration\<close>, in nanoseconds; 0 when unset), the \<open>*SyncResult\<close> and the error.
\<close>

record SyncOutcome =
  so_RequeueAfter :: int
  so_Result :: "SyncResult option"
  so_Err :: "error option"

definition Second :: int where "Second = 1000000000"

definition apiErrorRequeueDelay :: int where "apiErrorRequeueDelay = 30 * Second"

definition Connect ::
  "('sel, 'wire) SyncEnv \<Rightarrow> 'wire PingoraRouteSyncer \<Rightarrow> 'wire PingoraRouteSyncer \<times> error option" where
  "Connect env s0 =
     (let s = (case s_conn s0 of None \<Rightarrow> s0 | Some c \<Rightarrow> s0\<lparr>s_closed := s_closed s0 @ [c]\<rparr>)
      in (case ResolveFromGatewayClassName env (s_GatewayClassName s) of
            Inl err \<Rightarrow> (s, Some (Wrap err ''failed to resolve Pingora config''))
          | Inr resolved \<Rightarrow>
              (case CreateGRPCConnection env resolved of
                 Inl err \<Rightarrow> (s, Some (Wrap err ''failed to create gRPC connection''))
               | Inr c \<Rightarrow>
                   (s\<lparr>s_conn := Some c, s_grpcClient := Some c,
                      s_configName := rc_ConfigName resolved\<rparr>, None))))"

definition Close :: "'wire PingoraRouteSyncer \<Rightarrow> 'wire PingoraRouteSyncer" where
  "Close s =
     (case s_conn s of
        None \<Rightarrow> s
      | Some c \<Rightarrow> s\<lparr>s_closed := s_closed s @ [c], s_conn := None, s_grpcClient := None\<rparr>)"

definition IsConnected :: "'wire PingoraRouteSyncer \<Rightarrow> bool" where
  "IsConnected s = (s_grpcClient s \<noteq> None)"

definition record_metrics :: "metric list \<Rightarrow> 'wire PingoraRouteSyncer \<Rightarrow> 'wire PingoraRouteSyncer" where
  "record_metrics ms s = s\<lparr>s_metrics := s_metrics s @ ms\<rparr>"

text \<open>
  The part of \<open>SyncAllRoutes\<close> from the push on: the version is taken, the request is
  sent through the client, and the reply decides what is returned.
\<close>

definition pushRoutes ::
  "('sel, 'wire) SyncEnv \<Rightarrow> 'wire PingoraRouteSyncer \<Rightarrow> SyncResult
     \<Rightarrow> 'wire PingoraRouteSyncer \<times> SyncOutcome" where
  "pushRoutes env s0 result =
     (let pingoraHTTPRoutes = map (BuildHTTPRoute env) (sr_HTTPRoutes result);
          pingoraGRPCRoutes = map (BuildGRPCRoute env) (sr_GRPCRoutes result);
          version = s_version s0 + 1;
          s = s0\<lparr>s_version := version\<rparr>;
          req = \<lparr>req_HttpRoutes = pingoraHTTPRoutes, req_GrpcRoutes = pingoraGRPCRoutes,
                 req_Version = version\<rparr>
      in (case s_grpcClient s of
            None \<Rightarrow>
              (record_metrics [SyncDuration ''error'', SyncError ''not_connected''] s,
               \<lparr>so_RequeueAfter = apiErrorRequeueDelay, so_Result = None, so_Err = None\<rparr>)
          | Some grpcClient \<Rightarrow>
              let s = s\<lparr>s_sent := s_sent s @ [(grpcClient, req)]\<rparr> in
              (case UpdateRoutes env grpcClient req of
                 Inl err \<Rightarrow>
                   let s = record_metrics [GRPCCall ''UpdateRoutes'' ''error'',
                             SyncDuration ''error'', SyncError ''grpc_error''] s;
                       s = (case s_conn s of
                              None \<Rightarrow> s
                            | Some c \<Rightarrow>
                                s\<lparr>s_closed := s_closed s @ [c], s_conn := None,
                                   s_grpcClient := None\<rparr>)
                   in (s, \<lparr>so_RequeueAfter = apiErrorRequeueDelay, so_Result = Some result,
                           so_Err = Some (Wrap err ''failed to update routes via gRPC'')\<rparr>)
               | Inr resp \<Rightarrow>
                   if \<not> rsp_Success resp then
                     (record_metrics [GRPCCall ''UpdateRoutes'' ''failed'',
                        SyncDuration ''error'', SyncError ''update_failed''] s,
                      \<lparr>so_RequeueAfter = apiErrorRequeueDelay, so_Result = Some result,
                        so_Err = Some (Error (''route update failed: '' @ rsp_Error resp))\<rparr>)
                   else
                     (record_metrics [GRPCCall ''UpdateRoutes'' ''success'',
                        SyncDuration ''success'',
                        SyncedRoutes ''http'' (length (sr_HTTPRoutes result)),
                        SyncedRoutes ''grpc'' (length (sr_GRPCRoutes result))] s,
                      \<lparr>so_RequeueAfter = 0, so_Result = Some result, so_Err = None\<rparr>))))"

definition SyncAllRoutes ::
  "('sel, 'wire) SyncEnv \<Rightarrow> 'wire PingoraRouteSyncer
     \<Rightarrow> 'wire PingoraRouteSyncer \<times> SyncOutcome" where
  "SyncAllRoutes env s0 =
     (let (s, connectErr) = (if \<not> IsConnected s0 then Connect env s0 else (s0, None))
      in (case connectErr of
            Some err \<Rightarrow>
              (record_metrics [SyncDuration ''error'', SyncError ''connection_failed''] s,
               \<lparr>so_RequeueAfter = apiErrorRequeueDelay, so_Result = None, so_Err = None\<rparr>)
          | None \<Rightarrow>
              (case getRelevantHTTPRoutes (env_Client env) (s_GatewayClassName s) of
                 Inl err \<Rightarrow>
                   (s, \<lparr>so_RequeueAfter = 0, so_Result = None,
                        so_Err = Some (Wrap err ''failed to list httproutes'')\<rparr>)
               | Inr (httpRoutes, httpBindings) \<Rightarrow>
                   (case getRelevantGRPCRoutes (env_Client env) (s_GatewayClassName s) of
                      Inl err \<Rightarrow>
                        (s, \<lparr>so_RequeueAfter = 0, so_Result = None,
                             so_Err = Some (Wrap err ''failed to list grpcroutes'')\<rparr>)
                    | Inr (grpcRoutes, grpcBindings) \<Rightarrow>
                        pushRoutes env s
                          \<lparr>sr_HTTPRoutes = httpRoutes, sr_GRPCRoutes = grpcRoutes,
                            sr_HTTPRouteBindings = httpBindings,
                            sr_GRPCRouteBindings = grpcBindings\<rparr>))))"

section \<open>Gateway reconciler: attached routes\<close>

definition refMatchesGateway :: "ParentReference \<Rightarrow> 'sel Gateway \<Rightarrow> string \<Rightarrow> bool" where
  "refMatchesGateway ref gateway routeNamespace =
     (if pr_Name ref \<noteq> gw_Name gateway then False
      else
        let refNamespace = (case pr_Namespace ref of None \<Rightarrow> routeNamespace | Some n \<Rightarrow> n)
        in refNamespace = gw_Namespace gateway)"

text \<open>
  The counter map \<open>map[SectionName]int32\<close>. Reading a key that is absent gives 0, so
  \<open>result[name]++\<close> stores 1 for an absent key; the addition wraps at 32 bits.
\<close>

definition mapIndex :: "(string \<rightharpoonup> int32) \<Rightarrow> string \<Rightarrow> int32" where
  "mapIndex m k = (case m k of None \<Rightarrow> 0 | Some c \<Rightarrow> c)"

fun initListeners :: "'sel Listener list \<Rightarrow> (string \<rightharpoonup> int32) \<Rightarrow> (string \<rightharpoonup> int32)" where
  "initListeners [] result = result"
| "initListeners (listener # rest) result = initListeners rest (result(l_Name listener \<mapsto> 0))"

fun incrementListeners :: "string list \<Rightarrow> (string \<rightharpoonup> int32) \<Rightarrow> (string \<rightharpoonup> int32)" where
  "incrementListeners [] result = result"
| "incrementListeners (listenerName # rest) result =
     incrementListeners rest (result(listenerName \<mapsto> mapIndex result listenerName + 1))"

text \<open>The loop over the parent-refs of one route, and the loop over the routes of a list.\<close>

fun countParentRefs ::
  "'sel Client \<Rightarrow> 'sel Gateway \<Rightarrow> string \<Rightarrow> Route \<Rightarrow> ParentReference list
     \<Rightarrow> (string \<rightharpoonup> int32) \<Rightarrow> (string \<rightharpoonup> int32)" where
  "countParentRefs cli gateway kind route [] result = result"
| "countParentRefs cli gateway kind route (ref # rest) result =
     (if \<not> refMatchesGateway ref gateway (rt_Namespace route) then
        countParentRefs cli gateway kind route rest result
      else
        let routeInfo =
              \<lparr>ri_Name = rt_Name route, ri_Namespace = rt_Namespace route,
               ri_Hostnames = rt_Hostnames route, ri_Kind = kind,
               ri_SectionName = pr_SectionName ref\<rparr>
        in (case ValidateBinding cli gateway routeInfo of
              Inl bindErr \<Rightarrow> countParentRefs cli gateway kind route rest result
            | Inr bindingResult \<Rightarrow>
                if \<not> br_Accepted bindingResult then
                  countParentRefs cli gateway kind route rest result
                else
                  countParentRefs cli gateway kind route rest
                    (incrementListeners (br_MatchedListeners bindingResult) result)))"

fun countRoutes ::
  "'sel Client \<Rightarrow> 'sel Gateway \<Rightarrow> string \<Rightarrow> Route list \<Rightarrow> (string \<rightharpoonup> int32)
     \<Rightarrow> (string \<rightharpoonup> int32)" where
  "countRoutes cli gateway kind [] result = result"
| "countRoutes cli gateway kind (route # rest) result =
     countRoutes cli gateway kind rest
       (countParentRefs cli gateway kind route (rt_ParentRefs route) result)"

definition countAttachedRoutes :: "'sel Client \<Rightarrow> 'sel Gateway \<Rightarrow> (string \<rightharpoonup> int32)" where
  "countAttachedRoutes cli gateway =
     (let result = initListeners (gw_Listeners gateway) Map.empty;
          result = (case ListHTTPRoutes cli of
                      Inl err \<Rightarrow> result
                    | Inr items \<Rightarrow> countRoutes cli gateway KindHTTPRoute items result);
          result = (case ListGRPCRoutes cli of
                      Inl err \<Rightarrow> result
                    | Inr items \<Rightarrow> countRoutes cli gateway KindGRPCRoute items result)
      in result)"

text \<open>\<open>updateStatus\<close> writes \<open>attachedRoutes[listener.Name]\<close> to each ListenerStatus.\<close>

definition listenerAttachedRoutes :: "'sel Client \<Rightarrow> 'sel Gateway \<Rightarrow> (string \<times> int32) list" where
  "listenerAttachedRoutes cli gateway =
     (let attachedRoutes = countAttachedRoutes cli gateway
      in map (\<lambda>listener. (l_Name listener, mapIndex attachedRoutes (l_Name listener)))
           (gw_Listeners gateway))"

text \<open>
  What the loops count, in one predicate: the (route, parent-ref) pairs, by their
  indices, that \<open>refMatchesGateway\<close> lets through, whose binding is accepted and whose
  matched listeners contain \<open>L\<close>.
\<close>

definition countedPair ::
  "'sel Client \<Rightarrow> 'sel Gateway \<Rightarrow> string \<Rightarrow> string \<Rightarrow> Route \<Rightarrow> ParentReference \<Rightarrow> bool" where
  "countedPair cli gateway kind L route ref \<longleftrightarrow>
     refMatchesGateway ref gateway (rt_Namespace route)
     \<and> (case ValidateBinding cli gateway
                \<lparr>ri_Name = rt_Name route, ri_Namespace = rt_Namespace route,
                 ri_Hostnames = rt_Hostnames route, ri_Kind = kind,
                 ri_SectionName = pr_SectionName ref\<rparr> of
           Inl bindErr \<Rightarrow> False
         | Inr bindingResult \<Rightarrow>
             br_Accepted bindingResult \<and> L \<in> set (br_MatchedListeners bindingResult))"

definition countedPairs ::
  "'sel Client \<Rightarrow> 'sel Gateway \<Rightarrow> string \<Rightarrow> string \<Rightarrow> Route list \<Rightarrow> (nat \<times> nat) list" where
  "countedPairs cli gateway kind L items =
     concat (map (\<lambda>i. map (\<lambda>j. (i, j))
                        (filter (\<lambda>j. countedPair cli gateway kind L (items ! i)
                                       (rt_ParentRefs (items ! i) ! j))
                           [0 ..< length (rt_ParentRefs (items ! i))]))
               [0 ..< length items])"

text \<open>
  The attached pairs of the Gateway and a listener \<open>L\<close>, stated without the code's
  filter. A parent-ref names the Gateway when its kind is unset or \<open>Gateway\<close>, its name
  is the Gateway's and its namespace, the route's when unset, is the Gateway's. The
  pair is attached to \<open>L\<close> when, moreover, the binding evaluator accepts the route for
  that parent-ref with \<open>L\<close> among the matched listeners.
\<close>

definition namesGateway :: "ParentReference \<Rightarrow> 'sel Gateway \<Rightarrow> string \<Rightarrow> bool" where
  "namesGateway ref gateway routeNamespace \<longleftrightarrow>
     (pr_Kind ref = None \<or> pr_Kind ref = Some ''Gateway'')
     \<and> pr_Name ref = gw_Name gateway
     \<and> (case pr_Namespace ref of None \<Rightarrow> routeNamespace | Some n \<Rightarrow> n) = gw_Namespace gateway"

definition attachedPair ::
  "'sel Client \<Rightarrow> 'sel Gateway \<Rightarrow> string \<Rightarrow> string \<Rightarrow> Route \<Rightarrow> ParentReference \<Rightarrow> bool" where
  "attachedPair cli gateway kind L route ref \<longleftrightarrow>
     namesGateway ref gateway (rt_Namespace route)
     \<and> (case ValidateBinding cli gateway
                \<lparr>ri_Name = rt_Name route, ri_Namespace = rt_Namespace route,
                 ri_Hostnames = rt_Hostnames route, ri_Kind = kind,
                 ri_SectionName = pr_SectionName ref\<rparr> of
           Inl bindErr \<Rightarrow> False
         | Inr bindingResult \<Rightarrow>
             br_Accepted bindingResult \<and> L \<in> set (br_MatchedListeners bindingResult))"

definition attachedPairs ::
  "'sel Client \<Rightarrow> 'sel Gateway \<Rightarrow> string \<Rightarrow> string \<Rightarrow> Route list \<Rightarrow> (nat \<times> nat) list" where
  "attachedPairs cli gateway kind L items =
     concat (map (\<lambda>i. map (\<lambda>j. (i, j))
                        (filter (\<lambda>j. attachedPair cli gateway kind L (items ! i)
                                       (rt_ParentRefs (items ! i) ! j))
                           [0 ..< length (rt_ParentRefs (items ! i))]))
               [0 ..< length items])"

section \<open>Example cluster\<close>

text \<open>
  A small cluster on which the theorems below are instantiated: a Gateway \<open>gw\<close> of
  class \<open>pingora\<close> in namespace \<open>ns\<close> with listeners \<open>http\<close> (\<open>*.a.com\<close>) and \<open>https\<close>
  (\<open>*.b.com\<close>), HTTPRoutes \<open>r1\<close> (\<open>x.b.com\<close>, two parent-refs) and \<open>r2\<close> (\<open>other.com\<close>),
  a GRPCRoute \<open>g1\<close> (\<open>y.a.com\<close>), a grant in \<open>backend-ns\<close>, a namespace \<open>prod\<close> labelled
  \<open>env=prod\<close>, and label selectors numbered so that selector \<open>0\<close> is invalid and every
  other one asks for \<open>env=prod\<close>.
\<close>

definition exampleGrant :: ReferenceGrant where
  "exampleGrant =
     \<lparr>rg_From = [\<lparr>rgf_Group = ''gateway.networking.k8s.io'', rgf_Kind = ''HTTPRoute'',
                  rgf_Namespace = ''route-ns''\<rparr>],
      rg_To = [\<lparr>rgt_Group = ''core'', rgt_Kind = ''Service'', rgt_Name = Some ''svc''\<rparr>]\<rparr>"

definition exampleListener :: "string \<Rightarrow> string \<Rightarrow> nat Listener" where
  "exampleListener name host =
     \<lparr>l_Name = name, l_Hostname = Some host, l_Protocol = ''HTTP'', l_AllowedRoutes = None\<rparr>"

definition exampleGateway :: "nat Gateway" where
  "exampleGateway =
     \<lparr>gw_Name = ''gw'', gw_Namespace = ''ns'', gw_GatewayClassName = ''pingora'',
      gw_Listeners = [exampleListener ''http'' ''*.a.com'', exampleListener ''https'' ''*.b.com'']\<rparr>"

definition exampleParentRef :: "string option \<Rightarrow> ParentReference" where
  "exampleParentRef section =
     \<lparr>pr_Kind = None, pr_Namespace = None, pr_Name = ''gw'', pr_SectionName = section\<rparr>"

definition exampleRoute :: "string \<Rightarrow> string list \<Rightarrow> ParentReference list \<Rightarrow> Route" where
  "exampleRoute name hosts refs =
     \<lparr>rt_Name = name, rt_Namespace = ''ns'', rt_ParentRefs = refs, rt_Hostnames = hosts\<rparr>"

definition exampleHTTPRoutes :: "Route list" where
  "exampleHTTPRoutes =
     [exampleRoute ''r1'' [''x.b.com''] [exampleParentRef (Some ''https''), exampleParentRef None],
      exampleRoute ''r2'' [''other.com''] [exampleParentRef None]]"

definition exampleGRPCRoutes :: "Route list" where
  "exampleGRPCRoutes = [exampleRoute ''g1'' [''y.a.com''] [exampleParentRef None]]"

definition exampleClient :: "nat Client" where
  "exampleClient =
     \<lparr>LabelSelectorAsSelector =
        (\<lambda>sel. if sel = 0 then Inl (Error ''bad operator'')
               else Inr (\<lambda>lbls. lbls ''env'' = Some ''prod'')),
      GetNamespace = (\<lambda>n. if n = ''prod'' then Some [''env'' \<mapsto> ''prod''] else None),
      GetGateway = (\<lambda>k. if k = (''gw'', ''ns'') then Some exampleGateway else None),
      ListHTTPRoutes = Inr exampleHTTPRoutes,
      ListGRPCRoutes = Inr exampleGRPCRoutes,
      ListReferenceGrants = (\<lambda>n. if n = ''backend-ns'' then Inr [exampleGrant] else Inr [])\<rparr>"


definition examplePolicy :: "string \<Rightarrow> nat option \<Rightarrow> nat AllowedRoutes" where
  "examplePolicy from sel =
     \<lparr>ar_Namespaces = Some \<lparr>rn_From = Some from, rn_Selector = sel\<rparr>, ar_Kinds = []\<rparr>"

definition exampleBackendRef :: "int32 option \<Rightarrow> BackendRef" where
  "exampleBackendRef w =
     \<lparr>bref_Kind = None, bref_Namespace = None, bref_Name = ''svc'', bref_Port = Some 80,
      bref_Weight = w\<rparr>"

text \<open>
  A proxy for the example cluster, by the way it answers \<open>UpdateRoutes\<close>: one that
  echoes the version, one that reports success with a stale applied version, one that
  rejects the update, and one that cannot be reached. The wire route of the example is
  the route's id.
\<close>

definition echoProxy :: "string UpdateRoutesRequest \<Rightarrow> error + UpdateRoutesResponse" where
  "echoProxy req =
     Inr \<lparr>rsp_Success = True, rsp_Error = [],
          rsp_HttpRouteCount = of_nat (length (req_HttpRoutes req)),
          rsp_GrpcRouteCount = of_nat (length (req_GrpcRoutes req)),
          rsp_AppliedVersion = req_Version req\<rparr>"

definition staleProxy :: "string UpdateRoutesRequest \<Rightarrow> error + UpdateRoutesResponse" where
  "staleProxy req =
     Inr \<lparr>rsp_Success = True, rsp_Error = [],
          rsp_HttpRouteCount = of_nat (length (req_HttpRoutes req)),
          rsp_GrpcRouteCount = of_nat (length (req_GrpcRoutes req)),
          rsp_AppliedVersion = 0\<rparr>"

definition rejectingProxy :: "string UpdateRoutesRequest \<Rightarrow> error + UpdateRoutesResponse" where
  "rejectingProxy req =
     Inr \<lparr>rsp_Success = False, rsp_Error = ''invalid route'',
          rsp_HttpRouteCount = 0, rsp_GrpcRouteCount = 0, rsp_AppliedVersion = 0\<rparr>"


definition exampleEnv ::
  "(string UpdateRoutesRequest \<Rightarrow> error + UpdateRoutesResponse) \<Rightarrow> (nat, string) SyncEnv" where
  "exampleEnv proxy =
     \<lparr>env_Client = exampleClient,
      ResolveFromGatewayClassName =
        (\<lambda>name. Inr \<lparr>rc_Address = ''pingora-proxy:50051'', rc_ConfigName = ''pingora''\<rparr>),
      CreateGRPCConnection = (\<lambda>resolved. Inr 1),
      BuildHTTPRoute = routeKey,
      BuildGRPCRoute = routeKey,
      UpdateRoutes = (\<lambda>client. proxy)\<rparr>"

definition exampleSyncer :: "string PingoraRouteSyncer" where
  "exampleSyncer =
     \<lparr>s_GatewayClassName = ''pingora'', s_conn = None, s_grpcClient = None, s_configName = [],
      s_version = 0, s_closed = [], s_sent = [], s_metrics = []\<rparr>"

text \<open>
  The example cluster with one HTTPRoute only, whose single parent-ref is of kind
  \<open>Service\<close> and carries the name of the Gateway.
\<close>

definition serviceRefRoute :: Route where
  "serviceRefRoute =
     exampleRoute ''r3'' [''x.a.com'']
       [\<lparr>pr_Kind = Some ''Service'', pr_Namespace = None, pr_Name = ''gw'',
         pr_SectionName = None\<rparr>]"

definition serviceRefClient :: "nat Client" where
  "serviceRefClient =
     exampleClient\<lparr>ListHTTPRoutes := Inr [serviceRefRoute], ListGRPCRoutes := Inr []\<rparr>"


section \<open>Properties of the hostname matcher\<close>

lemma of_char_lowerChar:
  "(of_char (lowerChar c) :: nat) =
     (if 65 \<le> (of_char c :: nat) \<and> (of_char c :: nat) \<le> 90 then of_char c + 32 else of_char c)"
  by (simp add: lowerChar_def Let_def)

lemma lowerChar_star [simp]: "lowerChar c = CHR ''*'' \<longleftrightarrow> c = CHR ''*''"
proof -
  have "lowerChar c = CHR ''*'' \<longleftrightarrow> (of_char (lowerChar c) :: nat) = of_char (CHR ''*'')"
    by (simp only: of_char_eq_iff)
  also have "\<dots> \<longleftrightarrow> (of_char c :: nat) = of_char (CHR ''*'')"
    by (simp add: of_char_lowerChar)
  finally show ?thesis by (simp only: of_char_eq_iff)
qed

lemma lowerChar_dot [simp]: "lowerChar c = CHR ''.'' \<longleftrightarrow> c = CHR ''.''"
proof -
  have "lowerChar c = CHR ''.'' \<longleftrightarrow> (of_char (lowerChar c) :: nat) = of_char (CHR ''.'')"
    by (simp only: of_char_eq_iff)
  also have "\<dots> \<longleftrightarrow> (of_char c :: nat) = of_char (CHR ''.'')"
    by (simp add: of_char_lowerChar)
  finally show ?thesis by (simp only: of_char_eq_iff)
qed

lemma lowerChar_star' [simp]: "CHR ''*'' = lowerChar c \<longleftrightarrow> c = CHR ''*''"
  using lowerChar_star [of c] by (simp only: eq_commute)

lemma lowerChar_dot' [simp]: "CHR ''.'' = lowerChar c \<longleftrightarrow> c = CHR ''.''"
  using lowerChar_dot [of c] by (simp only: eq_commute)

lemma lowerChar_star_dot [simp]:
  "lowerChar CHR ''*'' = CHR ''*''" "lowerChar CHR ''.'' = CHR ''.''"
  by simp_all

lemma ToLower_simps [simp]:
  "ToLower [] = []" "ToLower (c # s) = lowerChar c # ToLower s"
  by (simp_all add: ToLower_def)

lemma ToLower_append: "ToLower (a @ b) = ToLower a @ ToLower b"
  by (simp add: ToLower_def)

lemma ToLower_wild [simp]: "ToLower ''*.'' = ''*.''"
  by (simp add: ToLower_def)

lemma ToLower_dotstr [simp]: "ToLower ''.'' = ''.''"
  by (simp add: ToLower_def)

lemma HasPrefix_prefix: "HasPrefix s p \<longleftrightarrow> prefix p s"
  by (auto simp: HasPrefix_def prefix_def take_is_prefix  intro: prefix_length_le)
     (metis append_eq_conv_conj)

lemma HasSuffix_suffix: "HasSuffix s x \<longleftrightarrow> suffix x s"
proof
  assume "HasSuffix s x"
  then have "s = take (length s - length x) s @ x"
    by (metis HasSuffix_def append_take_drop_id)
  then show "suffix x s" by (rule suffixI)
next
  assume "suffix x s"
  then show "HasSuffix s x" by (auto simp: HasSuffix_def suffix_def)
qed

lemma prefix_wild_iff: "prefix ''*.'' s \<longleftrightarrow> (\<exists>t. s = CHR ''*'' # CHR ''.'' # t)"
  by (auto simp: prefix_def)

lemma prefix_wild_ToLower [simp]: "prefix ''*.'' (ToLower s) \<longleftrightarrow> prefix ''*.'' s"
  by (cases s; cases "tl s") (auto simp: ToLower_def prefix_wild_iff)

lemma matchesWildcard_eq:
  assumes "prefix ''*.'' W"
  shows "matchesWildcard W S = Inr (suffix (drop 1 W) S)"
proof -
  from assms obtain t where W: "W = CHR ''*'' # CHR ''.'' # t"
    by (auto simp: prefix_wild_iff)
  have "suffix (CHR ''.'' # t) S \<Longrightarrow> S \<noteq> t"
    by (auto dest: suffix_length_le)
  then show ?thesis
    by (auto simp: matchesWildcard_def sliceFrom1_def W HasSuffix_suffix)
qed

lemma hostnameMatches_eq:
  "hostnameMatches l r = Inr (hostMatchSpec (ToLower l) (ToLower r))"
proof -
  have both: "prefix ''*.'' L \<Longrightarrow> prefix ''*.'' R \<Longrightarrow> drop 1 L = drop 1 R \<Longrightarrow> L = R" for L R :: string
    by (auto simp: prefix_wild_iff)
  show ?thesis
    unfolding hostnameMatches_def Let_def HasPrefix_prefix
    by (auto simp: hostMatchSpec_def matchesWildcard_eq sliceFrom1_def prefix_wild_iff
             dest: both)
qed

lemma hostMatchSpec_sym: "hostMatchSpec L R = hostMatchSpec R L"
  by (auto simp: hostMatchSpec_def)

lemma hostMatchSpec_wild_exact:
  assumes "\<not> prefix ''*.'' R"
  shows "hostMatchSpec (CHR ''*'' # CHR ''.'' # X) R \<longleftrightarrow> suffix (CHR ''.'' # X) R \<and> R \<noteq> X"
proof -
  have "suffix (CHR ''.'' # X) R \<Longrightarrow> R \<noteq> X"
    by (auto dest: suffix_length_le)
  moreover have "CHR ''*'' # CHR ''.'' # X \<noteq> R"
    using assms by (auto simp: prefix_def)
  ultimately show ?thesis
    using assms by (auto simp: hostMatchSpec_def)
qed

text \<open>
  C7. A listener hostname \<open>*.X\<close> matches an exact route hostname \<open>Y\<close> iff, after case
  folding, \<open>Y\<close> ends with \<open>.X\<close> and \<open>Y\<close> is not \<open>X\<close>; the apex \<open>X\<close> never
  matches; a multi-level subdomain \<open>A.B.X\<close> matches; and when neither name starts with
  \<open>*.\<close> (so a \<open>*\<close> elsewhere is an ordinary character) the matcher is the comparison
  of the two folded names.
\<close>

theorem hostnameMatches_wildcard_exact:
  "(\<not> prefix ''*.'' Y \<longrightarrow>
      hostnameMatches (''*.'' @ X) Y =
        Inr (suffix (''.'' @ ToLower X) (ToLower Y) \<and> ToLower Y \<noteq> ToLower X))
   \<and> hostnameMatches (''*.'' @ X) X = Inr False
   \<and> (\<not> prefix ''*.'' (A @ ''.'' @ B @ ''.'' @ X) \<longrightarrow>
        hostnameMatches (''*.'' @ X) (A @ ''.'' @ B @ ''.'' @ X) = Inr True)
   \<and> (\<not> prefix ''*.'' l \<and> \<not> prefix ''*.'' r \<longrightarrow>
        hostnameMatches l r = Inr (ToLower l = ToLower r))"
proof (intro conjI impI)
  assume "\<not> prefix ''*.'' Y"
  then show "hostnameMatches (''*.'' @ X) Y =
      Inr (suffix (''.'' @ ToLower X) (ToLower Y) \<and> ToLower Y \<noteq> ToLower X)"
    by (simp add: hostnameMatches_eq ToLower_append hostMatchSpec_wild_exact)
next
  have "\<not> suffix (CHR ''.'' # ToLower X) (ToLower X)"
    by (auto dest: suffix_length_le)
  then show "hostnameMatches (''*.'' @ X) X = Inr False"
    by (simp add: hostnameMatches_eq ToLower_append hostMatchSpec_def)
next
  assume "\<not> prefix ''*.'' (A @ ''.'' @ B @ ''.'' @ X)"
  moreover have "suffix (''.'' @ ToLower X) (ToLower (A @ ''.'' @ B @ ''.'' @ X))"
    by (simp add: ToLower_append suffix_def)
  moreover have "ToLower (A @ ''.'' @ B @ ''.'' @ X) \<noteq> ToLower X"
    by (simp add: ToLower_def)
  ultimately show "hostnameMatches (''*.'' @ X) (A @ ''.'' @ B @ ''.'' @ X) = Inr True"
    by (simp add: hostnameMatches_eq ToLower_append [of "''*.''"] hostMatchSpec_wild_exact)
next
  assume "\<not> prefix ''*.'' l \<and> \<not> prefix ''*.'' r"
  then show "hostnameMatches l r = Inr (ToLower l = ToLower r)"
    by (simp add: hostnameMatches_eq hostMatchSpec_def)
qed

theorem hostnameMatches_wildcard_exact_witness:
  "\<not> prefix ''*.'' ''Foo.Example.COM''
   \<and> hostnameMatches ''*.example.com'' ''Foo.Example.COM'' = Inr True
   \<and> hostnameMatches ''*.example.com'' ''example.com'' = Inr False
   \<and> hostnameMatches ''*.example.com'' ''bar.foo.example.com'' = Inr True
   \<and> hostnameMatches ''foo.*.com'' ''FOO.*.com'' = Inr True
   \<and> hostnameMatches ''foo.*.com'' ''foo.bar.com'' = Inr False"
proof -
  have e1: "\<not> prefix ''*.'' ''Foo.Example.COM''" by simp
  have e2: "\<not> prefix ''*.'' (''bar'' @ ''.'' @ ''foo'' @ ''.'' @ ''example.com'')" by simp
  have e3: "\<not> prefix ''*.'' ''foo.*.com'' \<and> \<not> prefix ''*.'' ''FOO.*.com''" by simp
  have e4: "\<not> prefix ''*.'' ''foo.*.com'' \<and> \<not> prefix ''*.'' ''foo.bar.com''" by simp
  have s1: "suffix (''.'' @ ToLower ''example.com'') (ToLower ''Foo.Example.COM'')"
    by code_simp
  have s2: "ToLower ''Foo.Example.COM'' \<noteq> ToLower ''example.com''"
    by (simp add: ToLower_def)
  have s3: "ToLower ''foo.*.com'' = ToLower ''FOO.*.com''" by code_simp
  have s4: "ToLower ''foo.*.com'' \<noteq> ToLower ''foo.bar.com''" by code_simp
  note t1 = hostnameMatches_wildcard_exact
              [of "''Foo.Example.COM''" "''example.com''" "''bar''" "''foo''"
                  "''foo.*.com''" "''FOO.*.com''"]
  note t2 = hostnameMatches_wildcard_exact
              [of "''Foo.Example.COM''" "''example.com''" "''bar''" "''foo''"
                  "''foo.*.com''" "''foo.bar.com''"]
  have "hostnameMatches (''*.'' @ ''example.com'') ''Foo.Example.COM'' = Inr True"
    using t1 e1 s1 s2 by simp
  moreover have "hostnameMatches (''*.'' @ ''example.com'') ''example.com'' = Inr False"
    using t1 by blast
  moreover have "hostnameMatches (''*.'' @ ''example.com'')
                   (''bar'' @ ''.'' @ ''foo'' @ ''.'' @ ''example.com'') = Inr True"
    using t1 e2 by blast
  moreover have "hostnameMatches ''foo.*.com'' ''FOO.*.com'' = Inr True"
    using t1 e3 s3 by simp
  moreover have "hostnameMatches ''foo.*.com'' ''foo.bar.com'' = Inr False"
    using t2 e4 s4 by simp
  ultimately show ?thesis using e1 by simp
qed

text \<open>
  C8. The pairwise hostname match is symmetric in its two arguments, whichever of them
  is a wildcard. It is a function of its two arguments that always returns a boolean
  (no slice goes out of range), so evaluating it again gives the same answer.
\<close>

theorem hostnameMatches_symmetric:
  "hostnameMatches a b = hostnameMatches b a \<and> (\<exists>v. hostnameMatches a b = Inr v)"
  by (simp add: hostnameMatches_eq hostMatchSpec_sym)

section \<open>Properties of the binding evaluator\<close>


lemma anyHostnameMatches_total: "\<exists>v. anyHostnameMatches h rs = Inr v"
  by (induction rs) (auto simp: hostnameMatches_eq split: bool.splits)

lemma HostnamesIntersect_total: "\<exists>v. HostnamesIntersect h rs = Inr v"
  using anyHostnameMatches_total
  by (auto simp: HostnamesIntersect_def split: option.splits)



lemma listenerAcceptsRoute_error:
  "listenerAcceptsRoute cli l ns route = Inl err \<Longrightarrow>
     HostnamesIntersect (l_Hostname l) (ri_Hostnames route) = Inr True
     \<and> IsNamespaceAllowed cli (l_AllowedRoutes l) ns (ri_Namespace route) = Inl err"
  using HostnamesIntersect_total [of "l_Hostname l" "ri_Hostnames route"]
  by (auto simp: listenerAcceptsRoute_def split: sum.splits bool.splits if_splits)

lemma notSkipped_simps [simp]:
  "notSkipped route [] = []"
  "notSkipped route (l # ls) =
     (if ri_SectionName route \<noteq> None \<and> ri_SectionName route \<noteq> Some (l_Name l)
      then notSkipped route ls else l # notSkipped route ls)"
  by (auto simp: notSkipped_def)

lemma walkListeners_evaluated:
  "walkListeners cli ns route ls m r = Inr (m', r') \<Longrightarrow> l \<in> set (notSkipped route ls) \<Longrightarrow>
     \<exists>reason. listenerAcceptsRoute cli l ns route = Inr reason"
  by (induction ls arbitrary: m r) (auto split: if_splits sum.splits)

lemma walkListeners_matched:
  "walkListeners cli ns route ls m r = Inr (m', r') \<Longrightarrow>
     m' = m @ map l_Name
            (filter (\<lambda>l. listenerAcceptsRoute cli l ns route = Inr RouteReasonAccepted)
               (notSkipped route ls))"
proof (induction ls arbitrary: m r)
  case Nil
  then show ?case by simp
next
  case (Cons l ls)
  show ?case
  proof (cases "ri_SectionName route \<noteq> None \<and> ri_SectionName route \<noteq> Some (l_Name l)")
    case True
    with Cons.prems have "walkListeners cli ns route ls m r = Inr (m', r')" by simp
    from Cons.IH [OF this] True show ?thesis by simp
  next
    case False
    with Cons.prems obtain reason where
      R: "listenerAcceptsRoute cli l ns route = Inr reason"
      by (auto split: sum.splits)
    show ?thesis
    proof (cases "reason = RouteReasonAccepted")
      case True
      with False R Cons.prems
      have "walkListeners cli ns route ls (m @ [l_Name l]) r = Inr (m', r')"
        by (auto split: if_splits)
      from Cons.IH [OF this] False R True show ?thesis by simp
    next
      case neq: False
      with False R Cons.prems
      have "walkListeners cli ns route ls m reason = Inr (m', r')"
        by (auto split: if_splits)
      from Cons.IH [OF this] False R neq show ?thesis by simp
    qed
  qed
qed




lemma walkListeners_total:
  "\<forall>l \<in> set (notSkipped route ls). \<exists>reason. listenerAcceptsRoute cli l ns route = Inr reason \<Longrightarrow>
     \<exists>res. walkListeners cli ns route ls m r = Inr res"
  by (induction ls arbitrary: m r) (auto split: if_splits sum.splits)







section \<open>Properties of the namespace gate\<close>

lemmas from_consts = NamespacesFromSame_def NamespacesFromAll_def
  NamespacesFromSelector_def NamespacesFromNone_def

text \<open>
  C9. The namespace gate compares the two namespaces when \<open>allowedRoutes\<close>, its
  \<open>namespaces\<close> or its \<open>from\<close> is nil, and for \<open>Same\<close>; it allows for \<open>All\<close>; it denies
  for \<open>None\<close>, also in the Gateway's own namespace. For \<open>Selector\<close>: no selector denies;
  a selector that the library cannot convert is an error; with a converted selector,
  a namespace that cannot be fetched is denied without an error, and a fetched one
  is allowed iff its labels match.
\<close>

theorem IsNamespaceAllowed_policy:
  fixes cli :: "'sel Client"
  shows
  "(allowedRoutes = None
      \<or> (\<exists>ar. allowedRoutes = Some ar \<and> ar_Namespaces ar = None)
      \<or> (\<exists>ar ns. allowedRoutes = Some ar \<and> ar_Namespaces ar = Some ns \<and> rn_From ns = None)
    \<longrightarrow> IsNamespaceAllowed cli allowedRoutes gwNs routeNs = Inr (gwNs = routeNs))
   \<and> (allowedRoutes = Some ar \<and> ar_Namespaces ar = Some ns \<longrightarrow>
        (rn_From ns = Some NamespacesFromSame \<longrightarrow>
           IsNamespaceAllowed cli allowedRoutes gwNs routeNs = Inr (gwNs = routeNs))
      \<and> (rn_From ns = Some NamespacesFromAll \<longrightarrow>
           IsNamespaceAllowed cli allowedRoutes gwNs routeNs = Inr True)
      \<and> (rn_From ns = Some NamespacesFromNone \<longrightarrow>
           IsNamespaceAllowed cli allowedRoutes gwNs gwNs = Inr False
           \<and> IsNamespaceAllowed cli allowedRoutes gwNs routeNs = Inr False)
      \<and> (rn_From ns = Some NamespacesFromSelector \<and> rn_Selector ns = None \<longrightarrow>
           IsNamespaceAllowed cli allowedRoutes gwNs routeNs = Inr False)
      \<and> (rn_From ns = Some NamespacesFromSelector \<and> rn_Selector ns = Some sel \<longrightarrow>
           (LabelSelectorAsSelector cli sel = Inl err \<longrightarrow>
              IsNamespaceAllowed cli allowedRoutes gwNs routeNs
                = Inl (Wrap err ''invalid label selector''))
         \<and> (LabelSelectorAsSelector cli sel = Inr matches \<longrightarrow>
              (GetNamespace cli routeNs = None \<longrightarrow>
                 IsNamespaceAllowed cli allowedRoutes gwNs routeNs = Inr False)
            \<and> (GetNamespace cli routeNs = Some nsLabels \<longrightarrow>
                 IsNamespaceAllowed cli allowedRoutes gwNs routeNs = Inr (matches nsLabels)))))"
  by (auto simp: IsNamespaceAllowed_def getNamespaceFrom_def namespaceMatchesSelector_def
        from_consts Let_def split: option.splits sum.splits)

theorem IsNamespaceAllowed_policy_witness:
  "IsNamespaceAllowed exampleClient None ''ns'' ''ns'' = Inr True
   \<and> IsNamespaceAllowed exampleClient (Some (examplePolicy ''None'' None)) ''ns'' ''ns'' = Inr False
   \<and> IsNamespaceAllowed exampleClient (Some (examplePolicy ''Selector'' (Some 1))) ''ns'' ''gone''
       = Inr False
   \<and> IsNamespaceAllowed exampleClient (Some (examplePolicy ''Selector'' (Some 1))) ''ns'' ''prod''
       = Inr True
   \<and> IsNamespaceAllowed exampleClient (Some (examplePolicy ''Selector'' (Some 0))) ''ns'' ''gone''
       = Inl (Error ''invalid label selector: bad operator'')"
proof -
  let ?none = "\<lparr>rn_From = Some ''None'', rn_Selector = (None :: nat option)\<rparr>"
  let ?sel1 = "\<lparr>rn_From = Some ''Selector'', rn_Selector = Some (1 :: nat)\<rparr>"
  let ?sel0 = "\<lparr>rn_From = Some ''Selector'', rn_Selector = Some (0 :: nat)\<rparr>"
  let ?m = "\<lambda>lbls :: labels. lbls ''env'' = Some ''prod''"
  have a: "IsNamespaceAllowed exampleClient None ''ns'' ''ns'' = Inr True"
    using IsNamespaceAllowed_policy [where allowedRoutes = None and cli = exampleClient and gwNs = "''ns''" and routeNs = "''ns''"] by simp
  have b: "IsNamespaceAllowed exampleClient (Some (examplePolicy ''None'' None)) ''ns'' ''ns''
             = Inr False"
    using IsNamespaceAllowed_policy
            [where allowedRoutes = "Some (examplePolicy ''None'' None)" and cli = exampleClient
               and gwNs = "''ns''" and routeNs = "''ns''"
               and ar = "examplePolicy ''None'' None" and ns = ?none]
    by (simp add: examplePolicy_def from_consts)
  have c: "IsNamespaceAllowed exampleClient (Some (examplePolicy ''Selector'' (Some 1)))
             ''ns'' ''gone'' = Inr False"
    using IsNamespaceAllowed_policy
            [where allowedRoutes = "Some (examplePolicy ''Selector'' (Some 1))"
               and cli = exampleClient and gwNs = "''ns''" and routeNs = "''gone''"
               and ar = "examplePolicy ''Selector'' (Some 1)" and ns = ?sel1 and sel = 1
               and matches = ?m]
    by (simp add: examplePolicy_def from_consts exampleClient_def)
  have d: "IsNamespaceAllowed exampleClient (Some (examplePolicy ''Selector'' (Some 1)))
             ''ns'' ''prod'' = Inr True"
    using IsNamespaceAllowed_policy
            [where allowedRoutes = "Some (examplePolicy ''Selector'' (Some 1))"
               and cli = exampleClient and gwNs = "''ns''" and routeNs = "''prod''"
               and ar = "examplePolicy ''Selector'' (Some 1)" and ns = ?sel1 and sel = 1
               and matches = ?m and nsLabels = "[''env'' \<mapsto> ''prod'']"]
    by (simp add: examplePolicy_def from_consts exampleClient_def)
  have e: "IsNamespaceAllowed exampleClient (Some (examplePolicy ''Selector'' (Some 0)))
             ''ns'' ''gone'' = Inl (Error ''invalid label selector: bad operator'')"
    using IsNamespaceAllowed_policy
            [where allowedRoutes = "Some (examplePolicy ''Selector'' (Some 0))"
               and cli = exampleClient and gwNs = "''ns''" and routeNs = "''gone''"
               and ar = "examplePolicy ''Selector'' (Some 0)" and ns = ?sel0 and sel = 0
               and err = "Error ''bad operator''"]
    by (simp add: examplePolicy_def from_consts exampleClient_def)
  from a b c d e show ?thesis by blast
qed

section \<open>Properties of the grant validator\<close>

lemma matchesFrom_iff:
  "matchesFrom gf fromRef \<longleftrightarrow>
     rgf_Group gf = ref_Group fromRef \<and> rgf_Kind gf = ref_Kind fromRef
     \<and> rgf_Namespace gf = ref_Namespace fromRef"
  by (simp add: matchesFrom_def)

lemma matchesTo_iff:
  "matchesTo gt toRef \<longleftrightarrow>
     (if rgt_Group gt = ''core'' then [] else rgt_Group gt) = ref_Group toRef
     \<and> rgt_Kind gt = ref_Kind toRef
     \<and> (rgt_Name gt = None \<or> rgt_Name gt = Some (ref_Name toRef))"
  unfolding matchesTo_def Let_def by (cases "rgt_Group gt = ''core''") simp_all

lemma anyMatchesFrom_ex: "anyMatchesFrom fs fromRef \<longleftrightarrow> (\<exists>gf \<in> set fs. matchesFrom gf fromRef)"
  by (induction fs) simp_all

lemma anyMatchesTo_ex: "anyMatchesTo ts toRef \<longleftrightarrow> (\<exists>gt \<in> set ts. matchesTo gt toRef)"
  by (induction ts) simp_all

lemma anyMatchesFrom_iff:
  "anyMatchesFrom fs fromRef \<longleftrightarrow>
     (\<exists>gf \<in> set fs. rgf_Group gf = ref_Group fromRef \<and> rgf_Kind gf = ref_Kind fromRef
        \<and> rgf_Namespace gf = ref_Namespace fromRef)"
  by (simp only: anyMatchesFrom_ex matchesFrom_iff)

lemma anyMatchesTo_iff:
  "anyMatchesTo ts toRef \<longleftrightarrow>
     (\<exists>gt \<in> set ts. (if rgt_Group gt = ''core'' then [] else rgt_Group gt) = ref_Group toRef
        \<and> rgt_Kind gt = ref_Kind toRef
        \<and> (rgt_Name gt = None \<or> rgt_Name gt = Some (ref_Name toRef)))"
  by (simp only: anyMatchesTo_ex matchesTo_iff)

lemma anyGrantAllows_iff:
  "anyGrantAllows gs fromRef toRef \<longleftrightarrow> (\<exists>g \<in> set gs. grantAllowsReference g fromRef toRef)"
  by (induction gs) auto

text \<open>
  C10. The grant validator allows a reference iff the two namespaces are equal, or the
  list of grants of the target namespace holds a grant with a \<open>from\<close> entry whose group,
  kind and namespace equal the source's and a \<open>to\<close> entry whose group (with \<open>core\<close> read
  as the empty group), kind and, if given, name equal the target's. The \<open>from\<close> group is
  compared as written. It returns an error exactly when the namespaces differ and the
  grants cannot be listed.
\<close>

theorem IsReferenceAllowed_iff:
  "(IsReferenceAllowed cli fromRef toRef = Inr True \<longleftrightarrow>
      ref_Namespace fromRef = ref_Namespace toRef
      \<or> (\<exists>grants g gf gt.
            ListReferenceGrants cli (ref_Namespace toRef) = Inr grants
            \<and> g \<in> set grants \<and> gf \<in> set (rg_From g) \<and> gt \<in> set (rg_To g)
            \<and> rgf_Group gf = ref_Group fromRef
            \<and> rgf_Kind gf = ref_Kind fromRef
            \<and> rgf_Namespace gf = ref_Namespace fromRef
            \<and> (if rgt_Group gt = ''core'' then [] else rgt_Group gt) = ref_Group toRef
            \<and> rgt_Kind gt = ref_Kind toRef
            \<and> (rgt_Name gt = None \<or> rgt_Name gt = Some (ref_Name toRef))))
   \<and> ((\<exists>err. IsReferenceAllowed cli fromRef toRef = Inl err) \<longleftrightarrow>
        ref_Namespace fromRef \<noteq> ref_Namespace toRef
        \<and> (\<exists>err. ListReferenceGrants cli (ref_Namespace toRef) = Inl err))"
  by (auto simp: IsReferenceAllowed_def anyGrantAllows_iff grantAllowsReference_def
        anyMatchesFrom_iff anyMatchesTo_iff Let_def split: sum.splits)

theorem IsReferenceAllowed_iff_witness:
  "IsReferenceAllowed exampleClient
       \<lparr>ref_Group = ''gateway.networking.k8s.io'', ref_Kind = ''HTTPRoute'',
        ref_Namespace = ''route-ns'', ref_Name = ''r1''\<rparr>
       \<lparr>ref_Group = [], ref_Kind = ''Service'', ref_Namespace = ''backend-ns'',
        ref_Name = ''svc''\<rparr> = Inr True
   \<and> IsReferenceAllowed exampleClient
       \<lparr>ref_Group = ''gateway.networking.k8s.io'', ref_Kind = ''HTTPRoute'',
        ref_Namespace = ''route-ns'', ref_Name = ''r1''\<rparr>
       \<lparr>ref_Group = [], ref_Kind = ''Service'', ref_Namespace = ''backend-ns'',
        ref_Name = ''other''\<rparr> \<noteq> Inr True"
proof -
  let ?from = "\<lparr>ref_Group = ''gateway.networking.k8s.io'', ref_Kind = ''HTTPRoute'',
        ref_Namespace = ''route-ns'', ref_Name = ''r1''\<rparr>"
  let ?to = "\<lparr>ref_Group = [], ref_Kind = ''Service'', ref_Namespace = ''backend-ns'',
        ref_Name = ''svc''\<rparr>"
  let ?other = "\<lparr>ref_Group = [], ref_Kind = ''Service'', ref_Namespace = ''backend-ns'',
        ref_Name = ''other''\<rparr>"
  have a: "IsReferenceAllowed exampleClient ?from ?to = Inr True"
    using IsReferenceAllowed_iff [where cli = exampleClient and fromRef = ?from and toRef = ?to]
    by (simp add: exampleClient_def exampleGrant_def)
  have b: "IsReferenceAllowed exampleClient ?from ?other \<noteq> Inr True"
    using IsReferenceAllowed_iff
            [where cli = exampleClient and fromRef = ?from and toRef = ?other]
    by (simp add: exampleClient_def exampleGrant_def)
  from a b show ?thesis by blast
qed

section \<open>Properties of backend weights\<close>

lemma selInv_skip:
  assumes "selInv gw pre sel hw" "weightOf gw r = 0"
  shows "selInv gw (pre @ [r]) sel hw"
  using assms unfolding selInv_def
  by (auto simp: nth_append less_Suc_eq)

lemma selInv_keep:
  assumes "selInv gw pre sel hw" "weightOf gw r \<noteq> 0" "sel \<noteq> - 1"
    "\<not> hw <s weightOf gw r"
  shows "selInv gw (pre @ [r]) sel hw"
  using assms unfolding selInv_def
  by (auto simp: nth_append less_Suc_eq word_sless_alt)

lemma selInv_take:
  assumes "selInv gw pre sel hw" "weightOf gw r \<noteq> 0" "sel = - 1 \<or> hw <s weightOf gw r"
  shows "selInv gw (pre @ [r]) (int (length pre)) (weightOf gw r)"
proof -
  have "\<forall>j < length pre. weightOf gw (pre ! j) \<noteq> 0 \<longrightarrow>
          sint (weightOf gw (pre ! j)) < sint (weightOf gw r)"
    using assms unfolding selInv_def
    by (fastforce simp: word_sless_alt)
  then show ?thesis
    using assms(2) unfolding selInv_def
    by (auto simp: nth_append less_Suc_eq order_less_imp_le)
qed

lemma selectLoop_inv:
  "selInv gw pre sel hw \<Longrightarrow>
     \<exists>hw'. selInv gw (pre @ rs) (selectLoop gw rs (int (length pre)) sel hw) hw'"
proof (induction rs arbitrary: pre sel hw)
  case Nil
  then show ?case by auto
next
  case (Cons r rs)
  let ?w = "weightOf gw r"
  have step: "selectLoop gw (r # rs) (int (length pre)) sel hw =
      (if ?w = 0 then selectLoop gw rs (int (length (pre @ [r]))) sel hw
       else if sel = - 1 \<or> hw <s ?w
       then selectLoop gw rs (int (length (pre @ [r]))) (int (length pre)) ?w
       else selectLoop gw rs (int (length (pre @ [r]))) sel hw)"
    by (simp add: weightOf_def Let_def add.commute)
  show ?case
  proof (cases "?w = 0")
    case True
    from Cons.IH [OF selInv_skip [OF Cons.prems True]] True step
    show ?thesis by simp
  next
    case nz: False
    show ?thesis
    proof (cases "sel = - 1 \<or> hw <s ?w")
      case True
      from Cons.IH [OF selInv_take [OF Cons.prems nz True]] nz True step
      show ?thesis by simp
    next
      case False
      then have "sel \<noteq> - 1" "\<not> hw <s ?w" by auto
      from Cons.IH [OF selInv_keep [OF Cons.prems nz this]] nz False step
      show ?thesis by simp
    qed
  qed
qed

lemma SelectHighestWeightIndex_inv:
  "\<exists>hw. selInv gw refs (SelectHighestWeightIndex gw refs) hw"
proof (cases "refs = []")
  case True
  then show ?thesis by (simp add: SelectHighestWeightIndex_def selInv_def)
next
  case False
  have "selInv gw [] (- 1) 0" by (simp add: selInv_def)
  from selectLoop_inv [OF this, of refs] False show ?thesis
    by (simp add: SelectHighestWeightIndex_def)
qed

lemma sint_pos_uint: "0 < sint (w :: 32 word) \<Longrightarrow> uint w = sint w"
proof -
  assume pos: "0 < sint w"
  have "sint w < 2 ^ (LENGTH(32) - 1)" by (rule sint_lt)
  then have "sint w < 2 ^ LENGTH(32)" by simp
  with pos have "take_bit LENGTH(32) (sint w) = sint w"
    by (intro take_bit_int_eq_self) simp_all
  then show ?thesis by (simp only: uint_sint)
qed

text \<open>
  The weight a backend is built with, and the selector: it returns -1 or the index of a
  reference whose weight is not 0, -1 when the list is empty or all weights are 0, and,
  when some weight is positive, the first index of the greatest weight.
\<close>

lemma backend_weights:
  "(buildBackend clusterDomain namespace ref = Inr (Some b) \<longrightarrow>
       (bref_Weight ref = None \<longrightarrow> be_Weight b = 1)
     \<and> (bref_Weight ref = Some w \<and> 0 < sint w \<longrightarrow>
          be_Weight b = w \<and> uint (be_Weight b) = sint w)
     \<and> (bref_Weight ref = Some w \<and> sint w \<le> 0 \<longrightarrow> be_Weight b = 1))
   \<and> ((bref_Kind ref = None \<or> bref_Kind ref = Some ''Service'') \<and> bref_Port ref \<noteq> None \<longrightarrow>
        (\<exists>b'. buildBackend clusterDomain namespace ref = Inr (Some b')))
   \<and> (let s = SelectHighestWeightIndex GetWeight refs in
        (s = - 1 \<or> (0 \<le> s \<and> nat s < length refs \<and> weightOf GetWeight (refs ! nat s) \<noteq> 0))
      \<and> (refs = [] \<or> (\<forall>r \<in> set refs. weightOf GetWeight r = 0) \<longrightarrow> s = - 1)
      \<and> ((\<exists>r \<in> set refs. 0 < sint (weightOf GetWeight r)) \<longrightarrow>
           0 \<le> s \<and> nat s < length refs
           \<and> 0 < sint (weightOf GetWeight (refs ! nat s))
           \<and> (\<forall>j < length refs.
                 sint (weightOf GetWeight (refs ! j)) \<le> sint (weightOf GetWeight (refs ! nat s)))
           \<and> (\<forall>j < nat s.
                 sint (weightOf GetWeight (refs ! j)) < sint (weightOf GetWeight (refs ! nat s)))))"
proof -
  let ?s = "SelectHighestWeightIndex GetWeight refs"
  let ?wt = "weightOf GetWeight"
  obtain hw where inv: "selInv GetWeight refs ?s hw"
    using SelectHighestWeightIndex_inv by blast
  have A: "buildBackend clusterDomain namespace ref = Inr (Some b) \<longrightarrow>
       (bref_Weight ref = None \<longrightarrow> be_Weight b = 1)
     \<and> (bref_Weight ref = Some w \<and> 0 < sint w \<longrightarrow>
          be_Weight b = w \<and> uint (be_Weight b) = sint w)
     \<and> (bref_Weight ref = Some w \<and> sint w \<le> 0 \<longrightarrow> be_Weight b = 1)"
    by (auto simp: buildBackend_def Let_def word_sless_alt sint_pos_uint
             split: if_splits option.splits)
  have B: "(bref_Kind ref = None \<or> bref_Kind ref = Some ''Service'') \<and> bref_Port ref \<noteq> None \<longrightarrow>
        (\<exists>b'. buildBackend clusterDomain namespace ref = Inr (Some b'))"
    by (auto simp: buildBackend_def Let_def split: option.splits)
  have C1: "?s = - 1 \<or> (0 \<le> ?s \<and> nat ?s < length refs \<and> ?wt (refs ! nat ?s) \<noteq> 0)"
    using inv unfolding selInv_def by auto
  have C2: "refs = [] \<or> (\<forall>r \<in> set refs. ?wt r = 0) \<longrightarrow> ?s = - 1"
  proof
    assume h: "refs = [] \<or> (\<forall>r \<in> set refs. ?wt r = 0)"
    show "?s = - 1"
    proof (rule ccontr)
      assume "?s \<noteq> - 1"
      with inv have "nat ?s < length refs" "?wt (refs ! nat ?s) \<noteq> 0"
        unfolding selInv_def by auto
      with h nth_mem [of "nat ?s" refs] show False by auto
    qed
  qed
  have C3: "(\<exists>r \<in> set refs. 0 < sint (?wt r)) \<longrightarrow>
           0 \<le> ?s \<and> nat ?s < length refs
           \<and> 0 < sint (?wt (refs ! nat ?s))
           \<and> (\<forall>j < length refs. sint (?wt (refs ! j)) \<le> sint (?wt (refs ! nat ?s)))
           \<and> (\<forall>j < nat ?s. sint (?wt (refs ! j)) < sint (?wt (refs ! nat ?s)))"
  proof
    assume "\<exists>r \<in> set refs. 0 < sint (?wt r)"
    then obtain k where k: "k < length refs" "0 < sint (?wt (refs ! k))"
      by (auto simp: in_set_conv_nth)
    then have knz: "?wt (refs ! k) \<noteq> 0" by auto
    with k inv have sel: "0 \<le> ?s" "nat ?s < length refs" "hw = ?wt (refs ! nat ?s)"
      and le: "\<forall>j < length refs. ?wt (refs ! j) \<noteq> 0 \<longrightarrow> sint (?wt (refs ! j)) \<le> sint hw"
      and lt: "\<forall>j < nat ?s. ?wt (refs ! j) \<noteq> 0 \<longrightarrow> sint (?wt (refs ! j)) < sint hw"
      unfolding selInv_def by auto
    from le k knz have pos: "0 < sint hw" by fastforce
    have le': "\<forall>j < length refs. sint (?wt (refs ! j)) \<le> sint hw"
    proof (intro allI impI)
      fix j assume "j < length refs"
      with le pos show "sint (?wt (refs ! j)) \<le> sint hw"
        by (cases "?wt (refs ! j) = 0") auto
    qed
    have lt': "\<forall>j < nat ?s. sint (?wt (refs ! j)) < sint hw"
    proof (intro allI impI)
      fix j assume "j < nat ?s"
      with lt pos show "sint (?wt (refs ! j)) < sint hw"
        by (cases "?wt (refs ! j) = 0") auto
    qed
    from sel pos le' lt' show "0 \<le> ?s \<and> nat ?s < length refs
           \<and> 0 < sint (?wt (refs ! nat ?s))
           \<and> (\<forall>j < length refs. sint (?wt (refs ! j)) \<le> sint (?wt (refs ! nat ?s)))
           \<and> (\<forall>j < nat ?s. sint (?wt (refs ! j)) < sint (?wt (refs ! nat ?s)))"
      by simp
  qed
  from A B C1 C2 C3 show ?thesis by (simp only: Let_def)
qed

text \<open>
  C5. The builder breaks the claim on a reference of weight 0, which the claim calls
  disabled. \<open>buildBackend\<close> gives it the wire weight 1, the
  weight of a reference with no weight, and the loop over a rule's references puts it
  into the rule's backends beside a reference of weight 7; the selector, on the same
  reference, returns -1.
\<close>

theorem buildBackend_weight_zero_emitted:
  "buildBackend ''cluster.local'' ''ns'' (exampleBackendRef (Some 0))
     = Inr (Some \<lparr>be_Address = ''svc.ns.svc.cluster.local:80'', be_Weight = 1,
                   be_Protocol = ''BACKEND_PROTOCOL_HTTP''\<rparr>)
   \<and> buildBackend ''cluster.local'' ''ns'' (exampleBackendRef (Some 0))
     = buildBackend ''cluster.local'' ''ns'' (exampleBackendRef None)
   \<and> ruleBackends ''cluster.local'' ''ns''
       [exampleBackendRef (Some 0), exampleBackendRef (Some 7)] []
     = Inr [\<lparr>be_Address = ''svc.ns.svc.cluster.local:80'', be_Weight = 1,
             be_Protocol = ''BACKEND_PROTOCOL_HTTP''\<rparr>,
            \<lparr>be_Address = ''svc.ns.svc.cluster.local:80'', be_Weight = 7,
             be_Protocol = ''BACKEND_PROTOCOL_HTTP''\<rparr>]
   \<and> SelectHighestWeightIndex bref_Weight [exampleBackendRef (Some 0)] = - 1
   \<and> SelectHighestWeightIndex bref_Weight
       [exampleBackendRef (Some 0), exampleBackendRef (Some 7)] = 1"
proof -
  have z: "buildBackend ''cluster.local'' ''ns'' (exampleBackendRef (Some 0))
     = Inr (Some \<lparr>be_Address = ''svc.ns.svc.cluster.local:80'', be_Weight = 1,
                   be_Protocol = ''BACKEND_PROTOCOL_HTTP''\<rparr>)"
    by (simp add: buildBackend_def formatInt_def digitChar_def word_sless_alt char_of_eq_iff
          exampleBackendRef_def)
  have n: "buildBackend ''cluster.local'' ''ns'' (exampleBackendRef None)
     = Inr (Some \<lparr>be_Address = ''svc.ns.svc.cluster.local:80'', be_Weight = 1,
                   be_Protocol = ''BACKEND_PROTOCOL_HTTP''\<rparr>)"
    by (simp add: buildBackend_def formatInt_def digitChar_def word_sless_alt char_of_eq_iff
          exampleBackendRef_def)
  have s: "buildBackend ''cluster.local'' ''ns'' (exampleBackendRef (Some 7))
     = Inr (Some \<lparr>be_Address = ''svc.ns.svc.cluster.local:80'', be_Weight = 7,
                   be_Protocol = ''BACKEND_PROTOCOL_HTTP''\<rparr>)"
    by (simp add: buildBackend_def formatInt_def digitChar_def word_sless_alt char_of_eq_iff
          exampleBackendRef_def)
  have r: "ruleBackends ''cluster.local'' ''ns''
       [exampleBackendRef (Some 0), exampleBackendRef (Some 7)] []
     = Inr [\<lparr>be_Address = ''svc.ns.svc.cluster.local:80'', be_Weight = 1,
             be_Protocol = ''BACKEND_PROTOCOL_HTTP''\<rparr>,
            \<lparr>be_Address = ''svc.ns.svc.cluster.local:80'', be_Weight = 7,
             be_Protocol = ''BACKEND_PROTOCOL_HTTP''\<rparr>]"
    by (simp add: z s)
  have a: "SelectHighestWeightIndex bref_Weight [exampleBackendRef (Some 0)] = - 1"
    by (simp add: SelectHighestWeightIndex_def exampleBackendRef_def Let_def)
  have b: "SelectHighestWeightIndex bref_Weight
       [exampleBackendRef (Some 0), exampleBackendRef (Some 7)] = 1"
    by (simp add: SelectHighestWeightIndex_def exampleBackendRef_def Let_def word_sless_alt)
  from z n r a b show ?thesis by simp
qed


section \<open>Properties of the sync snapshot\<close>













section \<open>Properties of the attached-routes count\<close>

lemma mapIndex_upd: "mapIndex (m(k \<mapsto> v)) L = (if L = k then v else mapIndex m L)"
  by (simp add: mapIndex_def)

lemma initListeners_index:
  "mapIndex (initListeners ls m) L = (if L \<in> l_Name ` set ls then 0 else mapIndex m L)"
  by (induction ls arbitrary: m) (auto simp: mapIndex_upd)

lemma incrementListeners_index:
  "mapIndex (incrementListeners ns m) L = mapIndex m L + of_nat (count_list ns L)"
  by (induction ns arbitrary: m) (auto simp: mapIndex_upd)

lemma ValidateBinding_matched_distinct:
  assumes "distinct (map l_Name (gw_Listeners gw))"
    and "ValidateBinding cli gw ri = Inr result"
  shows "distinct (br_MatchedListeners result)"
proof (cases "gw_Listeners gw = []")
  case True
  with assms(2) show ?thesis
    by (auto simp: ValidateBinding_def findMatchingListeners_def)
next
  case False
  show ?thesis
  proof (cases "walkListeners cli (gw_Namespace gw) ri (gw_Listeners gw) [] []")
    case (Inl err)
    with assms(2) False show ?thesis
      by (simp add: ValidateBinding_def findMatchingListeners_def)
  next
    case (Inr p)
    obtain m r where p: "p = (m, r)" by (cases p)
    from walkListeners_matched [of cli "gw_Namespace gw" ri "gw_Listeners gw" "[]" "[]" m r]
      Inr p
    have "m = map l_Name
            (filter (\<lambda>l. listenerAcceptsRoute cli l (gw_Namespace gw) ri = Inr RouteReasonAccepted)
               (notSkipped ri (gw_Listeners gw)))" by simp
    then have "distinct m"
      using assms(1) by (simp add: notSkipped_def distinct_map_filter)
    with assms(2) False Inr p show ?thesis
      by (auto simp: ValidateBinding_def findMatchingListeners_def split: if_splits)
  qed
qed

lemma count_list_distinct: "distinct xs \<Longrightarrow> count_list xs x = (if x \<in> set xs then 1 else 0)"
  by (induction xs) auto

lemma countParentRefs_index:
  assumes "distinct (map l_Name (gw_Listeners gw))"
  shows "mapIndex (countParentRefs cli gw kind route refs m) L =
           mapIndex m L + of_nat (length (filter (countedPair cli gw kind L route) refs))"
proof (induction refs arbitrary: m)
  case Nil
  then show ?case by simp
next
  case (Cons ref refs)
  let ?ri = "\<lparr>ri_Name = rt_Name route, ri_Namespace = rt_Namespace route,
               ri_Hostnames = rt_Hostnames route, ri_Kind = kind,
               ri_SectionName = pr_SectionName ref\<rparr>"
  show ?case
  proof (cases "refMatchesGateway ref gw (rt_Namespace route)")
    case False
    then show ?thesis by (simp add: Cons.IH countedPair_def)
  next
    case True
    show ?thesis
    proof (cases "ValidateBinding cli gw ?ri")
      case (Inl err)
      with True show ?thesis by (simp add: Cons.IH countedPair_def)
    next
      case (Inr result)
      show ?thesis
      proof (cases "br_Accepted result")
        case False
        with True Inr show ?thesis by (simp add: Cons.IH countedPair_def)
      next
        case acc: True
        have "count_list (br_MatchedListeners result) L =
                (if L \<in> set (br_MatchedListeners result) then 1 else 0)"
          by (rule count_list_distinct [OF ValidateBinding_matched_distinct [OF assms Inr]])
        with True Inr acc show ?thesis
          by (simp add: Cons.IH countedPair_def incrementListeners_index)
      qed
    qed
  qed
qed

lemma countRoutes_index:
  assumes "distinct (map l_Name (gw_Listeners gw))"
  shows "mapIndex (countRoutes cli gw kind items m) L =
           mapIndex m L
           + of_nat (sum_list (map (\<lambda>route. length (filter (countedPair cli gw kind L route)
                                                      (rt_ParentRefs route))) items))"
  by (induction items arbitrary: m) (simp_all add: countParentRefs_index [OF assms])

lemma length_filter_indices:
  "length (filter (\<lambda>j. P (xs ! j)) [0 ..< length xs]) = length (filter P xs)"
proof -
  have "filter P xs = filter P (map (\<lambda>i. xs ! i) [0 ..< length xs])"
    by (simp only: map_nth)
  also have "\<dots> = map (\<lambda>i. xs ! i) (filter (\<lambda>j. P (xs ! j)) [0 ..< length xs])"
    by (simp add: filter_map comp_def)
  finally show ?thesis by simp
qed

lemma sum_list_indices:
  "sum_list (map (\<lambda>i. g (xs ! i)) [0 ..< length xs]) = sum_list (map g xs)"
proof -
  have "map g xs = map g (map (\<lambda>i. xs ! i) [0 ..< length xs])"
    by (simp only: map_nth)
  then show ?thesis by (simp add: comp_def)
qed

lemma length_countedPairs:
  "length (countedPairs cli gw kind L items) =
     sum_list (map (\<lambda>route. length (filter (countedPair cli gw kind L route)
                                      (rt_ParentRefs route))) items)"
proof -
  have "length (countedPairs cli gw kind L items) =
      sum_list (map (\<lambda>i. length (filter (countedPair cli gw kind L (items ! i))
                                     (rt_ParentRefs (items ! i)))) [0 ..< length items])"
    by (simp add: countedPairs_def length_concat comp_def length_filter_indices)
  also have "\<dots> = sum_list (map (\<lambda>route. length (filter (countedPair cli gw kind L route)
                                      (rt_ParentRefs route))) items)"
    by (rule sum_list_indices)
  finally show ?thesis .
qed

lemma sint_of_nat_small:
  "n < 2 ^ 31 \<Longrightarrow> sint (of_nat n :: 32 word) = int n"
proof -
  assume "n < 2 ^ 31"
  then have "int n < 2 ^ 31" by (metis of_nat_less_numeral_power_cancel_iff)
  then show ?thesis
    by (simp add: signed_of_nat signed_take_bit_int_eq_self)
qed


lemma incrementListeners_keeps: "L \<in> dom m \<Longrightarrow> L \<in> dom (incrementListeners ns m)"
  by (induction ns arbitrary: m) auto

lemma countParentRefs_keeps:
  "L \<in> dom m \<Longrightarrow> L \<in> dom (countParentRefs cli gw kind route refs m)"
proof (induction refs arbitrary: m)
  case Nil
  then show ?case by simp
next
  case (Cons ref refs)
  have "countParentRefs cli gw kind route (ref # refs) m =
          countParentRefs cli gw kind route refs m
        \<or> (\<exists>ns. countParentRefs cli gw kind route (ref # refs) m =
              countParentRefs cli gw kind route refs (incrementListeners ns m))"
    by (auto simp: Let_def split: sum.splits)
  with Cons.IH Cons.prems incrementListeners_keeps [OF Cons.prems] show ?case
    by metis
qed

lemma countRoutes_keeps: "L \<in> dom m \<Longrightarrow> L \<in> dom (countRoutes cli gw kind items m)"
proof (induction items arbitrary: m)
  case Nil
  then show ?case by simp
next
  case (Cons a items)
  from Cons.IH [OF countParentRefs_keeps [OF Cons.prems]] show ?case by simp
qed

lemma initListeners_keeps: "L \<in> dom m \<Longrightarrow> L \<in> dom (initListeners ls m)"
proof (induction ls arbitrary: m)
  case Nil
  then show ?case by simp
next
  case (Cons a ls)
  from Cons.prems have "L \<in> dom (m(l_Name a \<mapsto> 0))" by simp
  from Cons.IH [OF this] show ?case by (simp only: initListeners.simps)
qed

lemma initListeners_sets: "L \<in> l_Name ` set ls \<Longrightarrow> L \<in> dom (initListeners ls m)"
proof (induction ls arbitrary: m)
  case Nil
  then show ?case by simp
next
  case (Cons a ls)
  show ?case
  proof (cases "L \<in> l_Name ` set ls")
    case True
    from Cons.IH [OF this] show ?thesis by (simp only: initListeners.simps)
  next
    case False
    with Cons.prems have "L = l_Name a" by auto
    then have "L \<in> dom (m(l_Name a \<mapsto> 0))" by simp
    from initListeners_keeps [OF this] show ?thesis by (simp only: initListeners.simps)
  qed
qed

lemma mapIndex_Some: "L \<in> dom m \<Longrightarrow> m L = Some (mapIndex m L)"
  by (auto simp: mapIndex_def)

lemma distinct_indexed_concat:
  "(\<And>i. distinct (g i)) \<Longrightarrow>
     distinct (concat (map (\<lambda>i. map (Pair i) (g i)) [0 ..< n]))"
proof (induction n)
  case 0
  then show ?case by simp
next
  case (Suc n)
  have "inj_on (Pair n) (set (g n))" by (simp add: inj_on_def)
  with Suc show ?case by (auto simp: distinct_map)
qed

lemma countedPairs_set:
  "set (countedPairs cli gw kind L items) =
     {(i, j). i < length items \<and> j < length (rt_ParentRefs (items ! i))
        \<and> countedPair cli gw kind L (items ! i) (rt_ParentRefs (items ! i) ! j)}"
  by (auto simp: countedPairs_def)

lemma countedPairs_distinct: "distinct (countedPairs cli gw kind L items)"
  unfolding countedPairs_def by (rule distinct_indexed_concat) simp

lemma card_countedPairs:
  "card {(i, j). i < length items \<and> j < length (rt_ParentRefs (items ! i))
        \<and> countedPair cli gw kind L (items ! i) (rt_ParentRefs (items ! i) ! j)}
   = length (countedPairs cli gw kind L items)"
  using distinct_card [OF countedPairs_distinct, of cli gw kind L items]
  by (simp only: countedPairs_set)

text \<open>
  The count of the code: when the two lists succeed and the listener names of the
  Gateway are distinct, the counter of each listener \<open>L\<close> is the number of counted
  pairs, modulo \<open>2^32\<close>.
\<close>

lemma countAttachedRoutes_counted:
  assumes "ListHTTPRoutes cli = Inr httpItems" and "ListGRPCRoutes cli = Inr grpcItems"
    and "distinct (map l_Name (gw_Listeners gateway))"
  shows "\<forall>listener \<in> set (gw_Listeners gateway).
     (let L = l_Name listener;
          n = card {(i, j). i < length httpItems \<and> j < length (rt_ParentRefs (httpItems ! i))
                     \<and> countedPair cli gateway KindHTTPRoute L (httpItems ! i)
                          (rt_ParentRefs (httpItems ! i) ! j)}
            + card {(i, j). i < length grpcItems \<and> j < length (rt_ParentRefs (grpcItems ! i))
                     \<and> countedPair cli gateway KindGRPCRoute L (grpcItems ! i)
                          (rt_ParentRefs (grpcItems ! i) ! j)}
      in countAttachedRoutes cli gateway L = Some (of_nat n)
       \<and> (L, of_nat n) \<in> set (listenerAttachedRoutes cli gateway)
       \<and> (n < 2 ^ 31 \<longrightarrow> sint (mapIndex (countAttachedRoutes cli gateway) L) = int n)
       \<and> (n = 0 \<longrightarrow> mapIndex (countAttachedRoutes cli gateway) L = 0))"
proof
  fix listener assume mem: "listener \<in> set (gw_Listeners gateway)"
  let ?L = "l_Name listener"
  let ?h = "length (countedPairs cli gateway KindHTTPRoute ?L httpItems)"
  let ?g = "length (countedPairs cli gateway KindGRPCRoute ?L grpcItems)"
  let ?m0 = "initListeners (gw_Listeners gateway) Map.empty"
  have cnt: "countAttachedRoutes cli gateway =
      countRoutes cli gateway KindGRPCRoute grpcItems
        (countRoutes cli gateway KindHTTPRoute httpItems ?m0)"
    using assms(1,2) by (simp add: countAttachedRoutes_def)
  have L: "?L \<in> l_Name ` set (gw_Listeners gateway)" using mem by simp
  have idx: "mapIndex (countAttachedRoutes cli gateway) ?L = of_nat (?h + ?g)"
    unfolding cnt
    by (simp add: countRoutes_index [OF assms(3)] initListeners_index L length_countedPairs)
  have "?L \<in> dom (countAttachedRoutes cli gateway)"
    unfolding cnt by (intro countRoutes_keeps initListeners_sets L)
  then have some: "countAttachedRoutes cli gateway ?L = Some (of_nat (?h + ?g))"
    using idx mapIndex_Some by metis
  have written: "(?L, of_nat (?h + ?g)) \<in> set (listenerAttachedRoutes cli gateway)"
    using mem idx by (auto simp: listenerAttachedRoutes_def Let_def image_iff intro!: bexI [of _ listener])
  have small: "?h + ?g < 2 ^ 31 \<longrightarrow>
      sint (mapIndex (countAttachedRoutes cli gateway) ?L) = int (?h + ?g)"
  proof
    assume "?h + ?g < 2 ^ 31"
    from sint_of_nat_small [OF this] show
      "sint (mapIndex (countAttachedRoutes cli gateway) ?L) = int (?h + ?g)"
      by (simp only: idx)
  qed
  have zero: "?h + ?g = 0 \<longrightarrow> mapIndex (countAttachedRoutes cli gateway) ?L = 0"
    by (simp only: idx) simp
  from some written small zero
  show "let L = l_Name listener;
          n = card {(i, j). i < length httpItems \<and> j < length (rt_ParentRefs (httpItems ! i))
                     \<and> countedPair cli gateway KindHTTPRoute L (httpItems ! i)
                          (rt_ParentRefs (httpItems ! i) ! j)}
            + card {(i, j). i < length grpcItems \<and> j < length (rt_ParentRefs (grpcItems ! i))
                     \<and> countedPair cli gateway KindGRPCRoute L (grpcItems ! i)
                          (rt_ParentRefs (grpcItems ! i) ! j)}
      in countAttachedRoutes cli gateway L = Some (of_nat n)
       \<and> (L, of_nat n) \<in> set (listenerAttachedRoutes cli gateway)
       \<and> (n < 2 ^ 31 \<longrightarrow> sint (mapIndex (countAttachedRoutes cli gateway) L) = int n)
       \<and> (n = 0 \<longrightarrow> mapIndex (countAttachedRoutes cli gateway) L = 0)"
    unfolding Let_def card_countedPairs by blast
qed

lemma refMatchesGateway_iff:
  "refMatchesGateway ref gateway routeNamespace \<longleftrightarrow>
     pr_Name ref = gw_Name gateway
     \<and> (case pr_Namespace ref of None \<Rightarrow> routeNamespace | Some n \<Rightarrow> n) = gw_Namespace gateway"
  by (simp add: refMatchesGateway_def Let_def)

lemma countedPair_iff:
  "countedPair cli gateway kind L route ref \<longleftrightarrow>
     pr_Name ref = gw_Name gateway
     \<and> (case pr_Namespace ref of None \<Rightarrow> rt_Namespace route | Some n \<Rightarrow> n) = gw_Namespace gateway
     \<and> (\<exists>bindingResult.
           ValidateBinding cli gateway
             \<lparr>ri_Name = rt_Name route, ri_Namespace = rt_Namespace route,
              ri_Hostnames = rt_Hostnames route, ri_Kind = kind,
              ri_SectionName = pr_SectionName ref\<rparr> = Inr bindingResult
         \<and> br_Accepted bindingResult \<and> L \<in> set (br_MatchedListeners bindingResult))"
  by (auto simp: countedPair_def refMatchesGateway_iff split: sum.splits)

text \<open>
  The attached pairs are the counted pairs whose parent-ref is of kind Gateway or of no
  kind: \<open>refMatchesGateway\<close> does not read the kind.
\<close>

lemma attachedPair_countedPair:
  "attachedPair cli gateway kind L route ref \<longleftrightarrow>
     (pr_Kind ref = None \<or> pr_Kind ref = Some ''Gateway'')
     \<and> countedPair cli gateway kind L route ref"
  by (auto simp: countedPair_def attachedPair_def namesGateway_def refMatchesGateway_iff)

text \<open>A list that fails is passed over: the count is that of the other list alone.\<close>

lemma countAttachedRoutes_list_failure:
  "ListHTTPRoutes cli = Inl err \<Longrightarrow> ListGRPCRoutes cli = Inr grpcItems \<Longrightarrow>
     countAttachedRoutes cli gateway =
       countRoutes cli gateway KindGRPCRoute grpcItems
         (initListeners (gw_Listeners gateway) Map.empty)"
  by (simp add: countAttachedRoutes_def)

text \<open>
  C4. The count breaks the claim on a parent-ref of another kind than Gateway, which
  does not name the Gateway. In the example cluster whose only route is
  an HTTPRoute with one parent-ref, of kind \<open>Service\<close> and with the name of the Gateway,
  no pair is attached to the listener \<open>http\<close>, the syncer has no BindingResult for the
  parent-ref and leaves the route out of the snapshot, and the Gateway reconciler
  counts one attached route for \<open>http\<close>.
\<close>

theorem countAttachedRoutes_counts_service_ref:
  "attachedPairs serviceRefClient exampleGateway KindHTTPRoute ''http'' [serviceRefRoute] = []
   \<and> attachedPairs serviceRefClient exampleGateway KindGRPCRoute ''http'' [] = []
   \<and> parentBinding serviceRefClient ''pingora'' KindHTTPRoute serviceRefRoute 0 = None
   \<and> map_sum id fst (getRelevantHTTPRoutes serviceRefClient ''pingora'') = Inr []
   \<and> ListHTTPRoutes serviceRefClient = Inr [serviceRefRoute]
   \<and> ListGRPCRoutes serviceRefClient = Inr []
   \<and> countAttachedRoutes serviceRefClient exampleGateway ''http'' = Some 1
   \<and> listenerAttachedRoutes serviceRefClient exampleGateway = [(''http'', 1), (''https'', 0)]"
proof -
  have a: "attachedPairs serviceRefClient exampleGateway KindHTTPRoute ''http'' [serviceRefRoute]
             = []"
    by code_simp
  have b: "attachedPairs serviceRefClient exampleGateway KindGRPCRoute ''http'' [] = []"
    by code_simp
  have c: "parentBinding serviceRefClient ''pingora'' KindHTTPRoute serviceRefRoute 0 = None"
    by code_simp
  have d: "map_sum id fst (getRelevantHTTPRoutes serviceRefClient ''pingora'') = Inr []"
    by code_simp
  have e: "ListHTTPRoutes serviceRefClient = Inr [serviceRefRoute]"
    "ListGRPCRoutes serviceRefClient = Inr []"
    by (simp_all add: serviceRefClient_def)
  have f: "countAttachedRoutes serviceRefClient exampleGateway ''http'' = Some 1"
    by code_simp
  have g: "listenerAttachedRoutes serviceRefClient exampleGateway
             = [(''http'', 1), (''https'', 0)]"
    by code_simp
  from a b c d e f g show ?thesis by simp
qed


section \<open>Properties of SyncAllRoutes\<close>

lemma Connect_sent: "Connect env s = (s', e) \<Longrightarrow> s_sent s' = s_sent s \<and> s_version s' = s_version s"
  by (auto simp: Connect_def Let_def split: option.splits sum.splits)


lemma pushRoutes_cases:
  assumes "pushRoutes env s result = (s', out)"
  shows "(s_grpcClient s = None \<and> s_sent s' = s_sent s \<and> so_Result out = None)
    \<or> (\<exists>client req.
          s_grpcClient s = Some client
        \<and> req_Version req = s_version s + 1
        \<and> s_sent s' = s_sent s @ [(client, req)]
        \<and> s_version s' = s_version s + 1
        \<and> so_Result out = Some result
        \<and> (case UpdateRoutes env client req of
             Inl err \<Rightarrow>
               so_Err out = Some (Wrap err ''failed to update routes via gRPC'')
               \<and> so_RequeueAfter out = apiErrorRequeueDelay
               \<and> (s_conn s \<noteq> None \<longrightarrow> s_conn s' = None \<and> s_grpcClient s' = None)
               \<and> (s_conn s = None \<longrightarrow> s_conn s' = None \<and> s_grpcClient s' = Some client)
           | Inr resp \<Rightarrow>
               s_conn s' = s_conn s \<and> s_grpcClient s' = s_grpcClient s
               \<and> (if rsp_Success resp
                   then so_Err out = None \<and> so_RequeueAfter out = 0
                   else so_Err out = Some (Error (''route update failed: '' @ rsp_Error resp))
                        \<and> so_RequeueAfter out = apiErrorRequeueDelay)))"
proof (cases "s_grpcClient s")
  case None
  with assms show ?thesis
    by (auto simp: pushRoutes_def Let_def record_metrics_def)
next
  case (Some client)
  let ?req = "\<lparr>req_HttpRoutes = map (BuildHTTPRoute env) (sr_HTTPRoutes result),
                req_GrpcRoutes = map (BuildGRPCRoute env) (sr_GRPCRoutes result),
                req_Version = s_version s + 1\<rparr>"
  show ?thesis
  proof (cases "UpdateRoutes env client ?req")
    case (Inl err)
    with assms Some show ?thesis
      by (intro disjI2 exI [of _ client] exI [of _ ?req])
         (auto simp: pushRoutes_def Let_def record_metrics_def split: option.splits)
  next
    case (Inr resp)
    with assms Some show ?thesis
      by (intro disjI2 exI [of _ client] exI [of _ ?req])
         (auto simp: pushRoutes_def Let_def record_metrics_def split: if_splits)
  qed
qed


lemma SyncAllRoutes_push:
  assumes "SyncAllRoutes env s = (s', out)"
    and "s_sent s' = s_sent s @ [(client, req)]"
  shows "\<exists>s1 result.
      pushRoutes env s1 result = (s', out)
    \<and> s_sent s1 = s_sent s \<and> s_version s1 = s_version s
    \<and> (if IsConnected s then s1 = s else Connect env s = (s1, None))"
proof -
  obtain s1 e where c: "(if \<not> IsConnected s then Connect env s else (s, None)) = (s1, e)"
    by (cases "if \<not> IsConnected s then Connect env s else (s, None)")
  have sent1: "s_sent s1 = s_sent s" "s_version s1 = s_version s"
    using c Connect_sent [of env s s1 e] by (auto split: if_splits)
  show ?thesis
  proof (cases e)
    case (Some err)
    with assms c sent1 show ?thesis
      by (auto simp: SyncAllRoutes_def record_metrics_def)
  next
    case None
    note e = this
    show ?thesis
    proof (cases "getRelevantHTTPRoutes (env_Client env) (s_GatewayClassName s1)")
      case (Inl err)
      with assms c e sent1 show ?thesis by (auto simp: SyncAllRoutes_def)
    next
      case (Inr hp)
      obtain hr hb where hp: "hp = (hr, hb)" by (cases hp)
      show ?thesis
      proof (cases "getRelevantGRPCRoutes (env_Client env) (s_GatewayClassName s1)")
        case (Inl err)
        with assms c e sent1 Inr hp show ?thesis by (auto simp: SyncAllRoutes_def)
      next
        case gp: (Inr gp)
        obtain gr gb where gpp: "gp = (gr, gb)" by (cases gp)
        let ?result = "\<lparr>sr_HTTPRoutes = hr, sr_GRPCRoutes = gr,
                            sr_HTTPRouteBindings = hb, sr_GRPCRouteBindings = gb\<rparr>"
        have "pushRoutes env s1 ?result = (s', out)"
          using assms(1) c e Inr hp gp gpp by (simp add: SyncAllRoutes_def)
        moreover have "if IsConnected s then s1 = s else Connect env s = (s1, None)"
          using c e by (auto split: if_splits)
        ultimately show ?thesis using sent1 by blast
      qed
    qed
  qed
qed

text \<open>
  The client handle is held only together with the connection: this holds for a new
  syncer and is kept by \<open>Connect\<close>, \<open>Close\<close> and \<open>SyncAllRoutes\<close>.
\<close>

lemma Connect_handles:
  "s_grpcClient s \<noteq> None \<longrightarrow> s_conn s \<noteq> None \<Longrightarrow> Connect env s = (s', e) \<Longrightarrow>
     s_grpcClient s' \<noteq> None \<longrightarrow> s_conn s' \<noteq> None"
  by (auto simp: Connect_def Let_def split: option.splits sum.splits)

lemma Close_handles:
  "s_grpcClient s \<noteq> None \<longrightarrow> s_conn s \<noteq> None \<Longrightarrow>
     s_grpcClient (Close s) \<noteq> None \<longrightarrow> s_conn (Close s) \<noteq> None"
  by (auto simp: Close_def split: option.splits)

lemma pushRoutes_handles:
  "s_grpcClient s \<noteq> None \<longrightarrow> s_conn s \<noteq> None \<Longrightarrow> pushRoutes env s result = (s', out) \<Longrightarrow>
     s_grpcClient s' \<noteq> None \<longrightarrow> s_conn s' \<noteq> None"
  using pushRoutes_cases [of env s result s' out]
  by (auto simp: pushRoutes_def Let_def record_metrics_def split: sum.splits if_splits)

lemma SyncAllRoutes_handles:
  assumes "s_grpcClient s \<noteq> None \<longrightarrow> s_conn s \<noteq> None"
    and "SyncAllRoutes env s = (s', out)"
  shows "s_grpcClient s' \<noteq> None \<longrightarrow> s_conn s' \<noteq> None"
proof -
  obtain s1 e where c: "(if \<not> IsConnected s then Connect env s else (s, None)) = (s1, e)"
    by (cases "if \<not> IsConnected s then Connect env s else (s, None)")
  have wf1: "s_grpcClient s1 \<noteq> None \<longrightarrow> s_conn s1 \<noteq> None"
    using c assms(1) Connect_handles [of s env s1 e] by (auto split: if_splits)
  show ?thesis
  proof (cases e)
    case (Some err)
    with assms(2) c wf1 show ?thesis
      by (auto simp: SyncAllRoutes_def record_metrics_def)
  next
    case None
    have "s' = s1 \<or> (\<exists>result. pushRoutes env s1 result = (s', out))"
      using assms(2) c None
      by (auto simp: SyncAllRoutes_def split: sum.splits)
    then show ?thesis using pushRoutes_handles [OF wf1] wf1 by blast
  qed
qed

lemma sent_singleton: "map fst xs = [c] \<Longrightarrow> \<exists>req. xs = [] @ [(c, req)]"
  by (cases xs) auto

text \<open>
  C1, as the code has it. A SyncAll call that pushes sends version \<open>version + 1\<close> and
  returns a SyncResult; it reports success (no error, no requeue) iff the call returned
  a reply, not a transport error, and the reply has the success flag set. The reply's
  applied version is not compared with the version sent.
\<close>

theorem SyncAllRoutes_success_iff_flag:
  assumes "SyncAllRoutes env s = (s', out)"
    and "s_sent s' = s_sent s @ [(client, req)]"
  shows "req_Version req = s_version s + 1
    \<and> so_Result out \<noteq> None
    \<and> (so_Err out = None \<longleftrightarrow>
         (\<exists>resp. UpdateRoutes env client req = Inr resp \<and> rsp_Success resp))
    \<and> (so_Err out = None \<longrightarrow> so_RequeueAfter out = 0)"
proof -
  from SyncAllRoutes_push [OF assms] obtain s1 result where
    p: "pushRoutes env s1 result = (s', out)"
    and s1: "s_sent s1 = s_sent s" "s_version s1 = s_version s"
    by blast
  from pushRoutes_cases [OF p] assms(2) s1 show ?thesis
    by (auto split: sum.splits if_splits)
qed

theorem SyncAllRoutes_success_iff_flag_witness:
  "so_Err (snd (SyncAllRoutes (exampleEnv echoProxy) exampleSyncer)) = None
   \<and> so_Err (snd (SyncAllRoutes (exampleEnv rejectingProxy) exampleSyncer)) \<noteq> None"
proof -
  let ?A = "SyncAllRoutes (exampleEnv echoProxy) exampleSyncer"
  let ?B = "SyncAllRoutes (exampleEnv rejectingProxy) exampleSyncer"
  have A: "?A = (fst ?A, snd ?A)" and B: "?B = (fst ?B, snd ?B)" by simp_all
  have "map fst (s_sent (fst ?A)) = [1]" by code_simp
  then obtain reqA where sentA: "s_sent (fst ?A) = s_sent exampleSyncer @ [(1, reqA)]"
    using sent_singleton by (fastforce simp: exampleSyncer_def)
  have "map fst (s_sent (fst ?B)) = [1]" by code_simp
  then obtain reqB where sentB: "s_sent (fst ?B) = s_sent exampleSyncer @ [(1, reqB)]"
    using sent_singleton by (fastforce simp: exampleSyncer_def)
  have "\<exists>resp. UpdateRoutes (exampleEnv echoProxy) 1 reqA = Inr resp \<and> rsp_Success resp"
    by (simp add: exampleEnv_def echoProxy_def)
  with SyncAllRoutes_success_iff_flag [OF A sentA] have a: "so_Err (snd ?A) = None"
    by blast
  have "\<not> (\<exists>resp. UpdateRoutes (exampleEnv rejectingProxy) 1 reqB = Inr resp \<and> rsp_Success resp)"
    by (simp add: exampleEnv_def rejectingProxy_def)
  with SyncAllRoutes_success_iff_flag [OF B sentB] have b: "so_Err (snd ?B) \<noteq> None"
    by blast
  from a b show ?thesis by blast
qed

text \<open>
  C1 as stated fails: the proxy of the example that reports success with applied
  version 0 is sent version 1, and the push is reported as successful.
\<close>

theorem SyncAllRoutes_stale_version_reported_success:
  "\<exists>s' out req resp.
      SyncAllRoutes (exampleEnv staleProxy) exampleSyncer = (s', out)
    \<and> s_sent s' = [(1, req)]
    \<and> UpdateRoutes (exampleEnv staleProxy) 1 req = Inr resp
    \<and> rsp_Success resp \<and> rsp_AppliedVersion resp \<noteq> req_Version req
    \<and> so_Err out = None \<and> so_RequeueAfter out = 0 \<and> so_Result out \<noteq> None"
proof -
  let ?R = "SyncAllRoutes (exampleEnv staleProxy) exampleSyncer"
  have R: "?R = (fst ?R, snd ?R)" by simp
  have "map fst (s_sent (fst ?R)) = [1]" by code_simp
  then obtain req where sent: "s_sent (fst ?R) = [(1, req)]"
    using sent_singleton by fastforce
  have "map (\<lambda>p. req_Version (snd p)) (s_sent (fst ?R)) = [1]" by code_simp
  with sent have v: "req_Version req = 1" by simp
  have out: "so_Err (snd ?R) = None" "so_RequeueAfter (snd ?R) = 0" "so_Result (snd ?R) \<noteq> None"
    by code_simp+
  have "UpdateRoutes (exampleEnv staleProxy) 1 req = staleProxy req"
    by (simp add: exampleEnv_def)
  moreover have "rsp_Success (projr (staleProxy req))"
    "rsp_AppliedVersion (projr (staleProxy req)) \<noteq> req_Version req"
    "staleProxy req = Inr (projr (staleProxy req))"
    using v by (simp_all add: staleProxy_def)
  ultimately show ?thesis using R sent out by metis
qed




end
